theory Spec2Isabelle
  imports Complex_Main "HOL-Library.Char_ord" "HOL-Library.List_Lexorder"
begin

section \<open>Python values used by \<open>train.py\<close>\<close>

text \<open>
  Exceptions are values. \<open>ReadError\<close> stands for whatever \<open>pd.read_parquet\<close> raised
  (network failure, malformed file); the other constructors are the Python exception
  classes raised by the table, vectorizer, regression and file operations.
\<close>

datatype error =
    ReadError string
  | AttributeError string
  | KeyError string
  | TypeError string
  | OverflowError
  | ValueError string
  | OSError string

text \<open>\<open>str(n)\<close> of a Python integer: decimal digits, a minus sign when negative.\<close>

definition digit_char :: "nat \<Rightarrow> char" where
  "digit_char d = ''0123456789'' ! (d mod 10)"

fun str_nat :: "nat \<Rightarrow> string" where
  "str_nat n = (if n < 10 then [digit_char n] else str_nat (n div 10) @ [digit_char (n mod 10)])"

declare str_nat.simps [simp del]

definition str_int :: "int \<Rightarrow> string" where
  "str_int i = (if i < 0 then CHR ''-'' # str_nat (nat (- i)) else str_nat (nat i))"

text \<open>
  The format specification \<open>02d\<close>: decimal, sign-aware zero padding to a minimum width of
  two characters (\<open>format(5, '02d') = '05'\<close>, \<open>format(123, '02d') = '123'\<close>,
  \<open>format(-5, '02d') = '-5'\<close>).
\<close>

definition format_02d :: "int \<Rightarrow> string" where
  "format_02d i =
     (let sign = (if i < 0 then ''-'' else '''');
          ds = str_nat (nat \<bar>i\<bar>)
      in sign @ replicate (2 - length sign - length ds) CHR ''0'' @ ds)"

section \<open>Tables\<close>

text \<open>
  A pandas column has one dtype. \<open>int64\<close> columns hold integers, \<open>float64\<close> columns hold
  numbers or NaN (\<open>None\<close>; floating point is idealised to exact rationals), object columns
  of \<open>str\<close> hold strings, \<open>datetime64[ns]\<close> and \<open>timedelta64[ns]\<close> columns hold a count of
  nanoseconds or NaT (\<open>None\<close>).
\<close>

datatype column =
    IntCol "int list"
  | FloatCol "rat option list"
  | StrCol "string list"
  | DatetimeCol "int option list"
  | TimedeltaCol "int option list"

text \<open>
  A DataFrame: the row labels (its index) and the named columns in their order.
\<close>

record dataframe =
  index :: "nat list"
  columns :: "(string \<times> column) list"

fun col_len :: "column \<Rightarrow> nat" where
  "col_len (IntCol xs) = length xs"
| "col_len (FloatCol xs) = length xs"
| "col_len (StrCol xs) = length xs"
| "col_len (DatetimeCol xs) = length xs"
| "col_len (TimedeltaCol xs) = length xs"

text \<open>Every column of a DataFrame has one entry per row label, and column names are unique.\<close>

definition wf_frame :: "dataframe \<Rightarrow> bool" where
  "wf_frame df \<longleftrightarrow>
     distinct (map fst (columns df)) \<and>
     list_all (\<lambda>(n, c). col_len c = length (index df)) (columns df)"

text \<open>\<open>df.name\<close> raises AttributeError and \<open>df['name']\<close> raises KeyError for a missing column.\<close>

definition getattr_col :: "dataframe \<Rightarrow> string \<Rightarrow> error + column" where
  "getattr_col df name =
     (case map_of (columns df) name of None \<Rightarrow> Inl (AttributeError name) | Some c \<Rightarrow> Inr c)"

definition getitem_col :: "dataframe \<Rightarrow> string \<Rightarrow> error + column" where
  "getitem_col df name =
     (case map_of (columns df) name of None \<Rightarrow> Inl (KeyError name) | Some c \<Rightarrow> Inr c)"

text \<open>
  \<open>df['name'] = col\<close> (and \<open>df.name = col\<close> for an existing column): an existing column
  is replaced where it stands, a new one is appended.
\<close>

fun set_column :: "string \<Rightarrow> column \<Rightarrow> (string \<times> column) list \<Rightarrow> (string \<times> column) list" where
  "set_column n c [] = [(n, c)]"
| "set_column n c ((m, d) # cs) = (if m = n then (n, c) # cs else (m, d) # set_column n c cs)"

definition setitem_col :: "dataframe \<Rightarrow> string \<Rightarrow> column \<Rightarrow> dataframe" where
  "setitem_col df name c = df\<lparr>columns := set_column name c (columns df)\<rparr>"

subsection \<open>Column arithmetic\<close>

text \<open>
  Nanosecond counts are 64-bit; the smallest value is NaT. Subtracting datetime-like columns
  raises OverflowError when a difference leaves the range.
\<close>

definition int64_ok :: "int \<Rightarrow> bool" where
  "int64_ok i \<longleftrightarrow> - (2 ^ 63) < i \<and> i < 2 ^ 63"

fun sub_ns :: "int option \<Rightarrow> int option \<Rightarrow> int option" where
  "sub_ns (Some a) (Some b) = Some (a - b)"
| "sub_ns _ _ = None"

definition checked_ns :: "int option list \<Rightarrow> error + int option list" where
  "checked_ns xs =
     (if list_all (\<lambda>x. case x of None \<Rightarrow> True | Some i \<Rightarrow> int64_ok i) xs then Inr xs
      else Inl OverflowError)"

definition wrap64 :: "int \<Rightarrow> int" where
  "wrap64 i = (i + 2 ^ 63) mod 2 ^ 64 - 2 ^ 63"

fun sub_float :: "rat option \<Rightarrow> rat option \<Rightarrow> rat option" where
  "sub_float (Some a) (Some b) = Some (a - b)"
| "sub_float _ _ = None"

text \<open>
  \<open>a - b\<close> on two columns of one table. Datetime minus datetime and timedelta minus
  timedelta are timedeltas, datetime minus timedelta is a datetime, numeric columns
  subtract as numbers, every other pairing raises TypeError.
\<close>

fun sub_columns :: "column \<Rightarrow> column \<Rightarrow> error + column" where
  "sub_columns (DatetimeCol a) (DatetimeCol b) =
     (case checked_ns (map2 sub_ns a b) of Inl e \<Rightarrow> Inl e | Inr d \<Rightarrow> Inr (TimedeltaCol d))"
| "sub_columns (TimedeltaCol a) (TimedeltaCol b) =
     (case checked_ns (map2 sub_ns a b) of Inl e \<Rightarrow> Inl e | Inr d \<Rightarrow> Inr (TimedeltaCol d))"
| "sub_columns (DatetimeCol a) (TimedeltaCol b) =
     (case checked_ns (map2 sub_ns a b) of Inl e \<Rightarrow> Inl e | Inr d \<Rightarrow> Inr (DatetimeCol d))"
| "sub_columns (IntCol a) (IntCol b) = Inr (IntCol (map2 (\<lambda>x y. wrap64 (x - y)) a b))"
| "sub_columns (FloatCol a) (FloatCol b) = Inr (FloatCol (map2 sub_float a b))"
| "sub_columns (IntCol a) (FloatCol b) =
     Inr (FloatCol (map2 (\<lambda>x y. sub_float (Some (of_int x)) y) a b))"
| "sub_columns (FloatCol a) (IntCol b) =
     Inr (FloatCol (map2 (\<lambda>x y. sub_float x (Some (of_int y))) a b))"
| "sub_columns _ _ = Inl (TypeError ''unsupported operand type(s) for -'')"

text \<open>
  \<open>col.dt.total_seconds()\<close>: only a timedelta column has it; the result is a float column
  of seconds, NaN where the timedelta is NaT.
\<close>

definition seconds_of_ns :: "int \<Rightarrow> rat" where
  "seconds_of_ns ns = of_int ns / 1000000000"

fun dt_total_seconds :: "column \<Rightarrow> error + column" where
  "dt_total_seconds (TimedeltaCol xs) = Inr (FloatCol (map (map_option seconds_of_ns) xs))"
| "dt_total_seconds (DatetimeCol xs) = Inl (AttributeError ''total_seconds'')"
| "dt_total_seconds _ = Inl (AttributeError ''dt'')"

text \<open>\<open>col / k\<close> for a number \<open>k\<close>, on numeric columns.\<close>

fun div_scalar :: "column \<Rightarrow> rat \<Rightarrow> error + column" where
  "div_scalar (FloatCol xs) k = Inr (FloatCol (map (map_option (\<lambda>x. x / k)) xs))"
| "div_scalar (IntCol xs) k = Inr (FloatCol (map (\<lambda>x. Some (of_int x / k)) xs))"
| "div_scalar _ k = Inl (TypeError ''unsupported operand type(s) for /'')"

text \<open>\<open>col >= k\<close> and \<open>col <= k\<close>: Boolean masks; a comparison with NaN is False.\<close>

fun ge_scalar :: "column \<Rightarrow> rat \<Rightarrow> error + bool list" where
  "ge_scalar (FloatCol xs) k = Inr (map (\<lambda>x. case x of None \<Rightarrow> False | Some v \<Rightarrow> k \<le> v) xs)"
| "ge_scalar (IntCol xs) k = Inr (map (\<lambda>x. k \<le> of_int x) xs)"
| "ge_scalar _ k = Inl (TypeError ''invalid comparison'')"

fun le_scalar :: "column \<Rightarrow> rat \<Rightarrow> error + bool list" where
  "le_scalar (FloatCol xs) k = Inr (map (\<lambda>x. case x of None \<Rightarrow> False | Some v \<Rightarrow> v \<le> k) xs)"
| "le_scalar (IntCol xs) k = Inr (map (\<lambda>x. of_int x \<le> k) xs)"
| "le_scalar _ k = Inl (TypeError ''invalid comparison'')"

definition mask_and :: "bool list \<Rightarrow> bool list \<Rightarrow> bool list" where
  "mask_and a b = map2 (\<and>) a b"

subsection \<open>Boolean indexing\<close>

text \<open>\<open>df[mask]\<close> keeps, in order, the rows whose mask entry is True, with their labels.\<close>

definition filter_by :: "bool list \<Rightarrow> 'a list \<Rightarrow> 'a list" where
  "filter_by bs xs = map snd (filter fst (zip bs xs))"

fun filter_col :: "bool list \<Rightarrow> column \<Rightarrow> column" where
  "filter_col bs (IntCol xs) = IntCol (filter_by bs xs)"
| "filter_col bs (FloatCol xs) = FloatCol (filter_by bs xs)"
| "filter_col bs (StrCol xs) = StrCol (filter_by bs xs)"
| "filter_col bs (DatetimeCol xs) = DatetimeCol (filter_by bs xs)"
| "filter_col bs (TimedeltaCol xs) = TimedeltaCol (filter_by bs xs)"

definition filter_rows :: "bool list \<Rightarrow> dataframe \<Rightarrow> dataframe" where
  "filter_rows bs df =
     \<lparr>index = filter_by bs (index df),
      columns = map (\<lambda>(n, c). (n, filter_col bs c)) (columns df)\<rparr>"

subsection \<open>Conversion to text\<close>

text \<open>
  The scalars whose \<open>str\<close> is not modelled here: floats, timestamps and timedeltas. Their
  rendering is a parameter of the model.
\<close>

datatype scalar = FloatV "rat option" | DatetimeV "int option" | TimedeltaV "int option"

fun astype_str :: "(scalar \<Rightarrow> string) \<Rightarrow> column \<Rightarrow> column" where
  "astype_str render (IntCol xs) = StrCol (map str_int xs)"
| "astype_str render (FloatCol xs) = StrCol (map (\<lambda>x. render (FloatV x)) xs)"
| "astype_str render (StrCol xs) = StrCol xs"
| "astype_str render (DatetimeCol xs) = StrCol (map (\<lambda>x. render (DatetimeV x)) xs)"
| "astype_str render (TimedeltaCol xs) = StrCol (map (\<lambda>x. render (TimedeltaV x)) xs)"

text \<open>
  \<open>df[names]\<close> with a list of names: the sub-table of those columns, in the order asked;
  KeyError when one is missing.
\<close>

definition getitem_cols :: "dataframe \<Rightarrow> string list \<Rightarrow> error + dataframe" where
  "getitem_cols df names =
     (case filter (\<lambda>n. map_of (columns df) n = None) names of
        missing # _ \<Rightarrow> Inl (KeyError missing)
      | [] \<Rightarrow> Inr (df\<lparr>columns := map (\<lambda>n. (n, the (map_of (columns df) n))) names\<rparr>))"

definition frame_astype_str :: "(scalar \<Rightarrow> string) \<Rightarrow> dataframe \<Rightarrow> dataframe" where
  "frame_astype_str render df =
     df\<lparr>columns := map (\<lambda>(n, c). (n, astype_str render c)) (columns df)\<rparr>"

text \<open>\<open>df[names] = sub\<close>: each column of \<open>sub\<close> is assigned under its name.\<close>

definition setitem_cols :: "dataframe \<Rightarrow> dataframe \<Rightarrow> dataframe" where
  "setitem_cols df sub = fold (\<lambda>(n, c) d. setitem_col d n c) (columns sub) df"

section \<open>The fitted pipeline\<close>

text \<open>
  The values a feature dictionary holds: a string, a number (\<open>None\<close> is NaN), or an object
  the vectorizer does not support (timestamps, timedeltas).
\<close>

datatype pyvalue = PyStr string | PyNum "rat option" | PyOther

type_synonym featdict = "(string \<times> pyvalue) list"

record linear_model =
  coef :: "rat list"
  intercept :: "rat"

record pipeline =
  feature_names :: "string list"
  regressor :: linear_model

text \<open>
  What the model takes from the libraries without modelling it: the rendering of floats and
  timestamps as text, and the least-squares solver of \<open>LinearRegression\<close>.
\<close>

record library =
  render :: "scalar \<Rightarrow> string"
  ols :: "rat list list \<Rightarrow> rat list \<Rightarrow> linear_model"

section \<open>The world: sources, files, log\<close>

datatype log_record =
    Info string
  | InfoMse real
  | Error string
  | ErrorExc error

text \<open>
  What a file at an output path holds: a whole pickled pipeline, or what is left when the
  file was opened for writing (created or truncated) and the dump did not complete.
\<close>

datatype artifact = Truncated | Pickled pipeline

text \<open>
  \<open>source\<close> is what \<open>pd.read_parquet\<close> yields for a location, \<open>files\<close> the files on disk,
  \<open>writable\<close> whether \<open>open(path, 'wb')\<close> succeeds, \<open>dump_ok\<close> whether writing the
  pickle to the opened file succeeds (it fails on a full disk or an I/O error), \<open>log\<close> the
  lines emitted so far.
\<close>

record world =
  source :: "string \<Rightarrow> error + dataframe"
  files :: "string \<rightharpoonup> artifact"
  writable :: "string \<Rightarrow> bool"
  dump_ok :: "string \<Rightarrow> bool"
  log :: "log_record list"

definition logger :: "world \<Rightarrow> log_record \<Rightarrow> world" where
  "logger w r = w\<lparr>log := log w @ [r]\<rparr>"

section \<open>Loader: \<open>read_dataframe\<close>\<close>

text \<open>
  Sequencing of steps that may raise: the first exception ends the computation and is its
  result.
\<close>

definition and_then :: "error + 'a \<Rightarrow> ('a \<Rightarrow> error + 'b) \<Rightarrow> error + 'b" where
  "and_then m f = (case m of Inl e \<Rightarrow> Inl e | Inr x \<Rightarrow> f x)"

text \<open>The body of the \<open>try\<close> block, lines 35 to 43, up to the table that is returned.\<close>

definition read_dataframe_try :: "library \<Rightarrow> world \<Rightarrow> string \<Rightarrow> error + dataframe" where
  "read_dataframe_try lib w filename =
     and_then (source w filename) (\<lambda>df.
     and_then (getattr_col df ''lpep_dropoff_datetime'') (\<lambda>dropoff.
     and_then (getattr_col df ''lpep_pickup_datetime'') (\<lambda>pickup.
     and_then (sub_columns dropoff pickup) (\<lambda>delta.
     let df = setitem_col df ''duration'' delta in
     and_then (getattr_col df ''duration'') (\<lambda>d.
     and_then (dt_total_seconds d) (\<lambda>secs.
     and_then (div_scalar secs 60) (\<lambda>mins.
     let df = setitem_col df ''duration'' mins in
     and_then (getattr_col df ''duration'') (\<lambda>d1.
     and_then (ge_scalar d1 1) (\<lambda>lo.
     and_then (getattr_col df ''duration'') (\<lambda>d2.
     and_then (le_scalar d2 60) (\<lambda>hi.
     let df = filter_rows (mask_and lo hi) df;
         categorical = [''PULocationID'', ''DOLocationID''] in
     and_then (getitem_cols df categorical) (\<lambda>sub.
     Inr (setitem_cols df (frame_astype_str (render lib) sub))))))))))))))"

definition read_dataframe :: "library \<Rightarrow> world \<Rightarrow> string \<Rightarrow> (error + dataframe) \<times> world" where
  "read_dataframe lib w filename =
     (let w = logger w (Info (''loading file: '' @ filename)) in
      case read_dataframe_try lib w filename of
        Inr df \<Rightarrow>
          (Inr df, logger w (Info (filename @ '' had '' @ str_nat (length (index df)) @ '' rows'')))
      | Inl e \<Rightarrow>
          (Inl e, logger (logger w (Error (''error reading: '' @ filename))) (ErrorExc e)))"

section \<open>Trainer\<close>

subsection \<open>Feature dictionaries\<close>

text \<open>The Python objects a column yields, row by row.\<close>

fun col_values :: "column \<Rightarrow> pyvalue list" where
  "col_values (IntCol xs) = map (\<lambda>x. PyNum (Some (of_int x))) xs"
| "col_values (FloatCol xs) = map PyNum xs"
| "col_values (StrCol xs) = map PyStr xs"
| "col_values (DatetimeCol xs) = map (\<lambda>x. PyOther) xs"
| "col_values (TimedeltaCol xs) = map (\<lambda>x. PyOther) xs"

text \<open>
  \<open>df.to_dict(orient='records')\<close>: one dictionary per row, keyed by column name. In a
  well-formed table every column has an entry at each row position.
\<close>

definition to_dict_records :: "dataframe \<Rightarrow> featdict list" where
  "to_dict_records df =
     map (\<lambda>i. map (\<lambda>(n, c). (n, col_values c ! i)) (columns df)) [0..<length (index df)]"

subsection \<open>\<open>DictVectorizer\<close>\<close>

text \<open>
  A string value \<open>v\<close> under key \<open>f\<close> is the feature \<open>f=v\<close> with value 1; a number under
  key \<open>f\<close> is the feature \<open>f\<close> with that value; other objects raise TypeError.
\<close>

fun feature_name :: "string \<times> pyvalue \<Rightarrow> string option" where
  "feature_name (f, PyStr s) = Some (f @ ''='' @ s)"
| "feature_name (f, PyNum x) = Some f"
| "feature_name (f, PyOther) = None"

fun feature_value :: "pyvalue \<Rightarrow> rat option" where
  "feature_value (PyStr s) = Some 1"
| "feature_value (PyNum x) = x"
| "feature_value PyOther = None"

definition dv_check :: "featdict list \<Rightarrow> error + unit" where
  "dv_check dicts =
     (if \<exists>item \<in> set (concat dicts). feature_name item = None
      then Inl (TypeError ''Unsupported value type'')
      else if dicts = [] then Inl (ValueError ''Sample sequence X is empty.'')
      else Inr ())"

text \<open>Fitting: the distinct feature names of the dictionaries, sorted.\<close>

definition dv_fit :: "featdict list \<Rightarrow> error + string list" where
  "dv_fit dicts =
     and_then (dv_check dicts) (\<lambda>_.
     Inr (sort (remdups (List.map_filter feature_name (concat dicts)))))"

text \<open>Sum of matrix entries that fall on one cell; NaN (\<open>None\<close>) absorbs.\<close>

fun nan_sum :: "rat option list \<Rightarrow> rat option" where
  "nan_sum [] = Some 0"
| "nan_sum (x # xs) =
     (case x of None \<Rightarrow> None | Some a \<Rightarrow> (case nan_sum xs of None \<Rightarrow> None | Some b \<Rightarrow> Some (a + b)))"

text \<open>
  Transforming one dictionary with fitted names: the entry of a name is the sum of the
  values of the items with that feature name; items whose name is not among the fitted
  ones are skipped.
\<close>

definition dv_row :: "string list \<Rightarrow> featdict \<Rightarrow> rat option list" where
  "dv_row names d =
     map (\<lambda>n. nan_sum (map (feature_value \<circ> snd) (filter (\<lambda>item. feature_name item = Some n) d)))
       names"

definition dv_transform :: "string list \<Rightarrow> featdict list \<Rightarrow> error + rat option list list" where
  "dv_transform names dicts =
     and_then (dv_check dicts) (\<lambda>_. Inr (map (dv_row names) dicts))"

subsection \<open>\<open>LinearRegression\<close> and the metric\<close>

text \<open>Input validation: numeric, no NaN, at least one sample.\<close>

fun numeric_values :: "column \<Rightarrow> error + rat option list" where
  "numeric_values (FloatCol xs) = Inr xs"
| "numeric_values (IntCol xs) = Inr (map (\<lambda>x. Some (of_int x)) xs)"
| "numeric_values _ = Inl (ValueError ''could not convert to float'')"

definition check_array :: "rat option list list \<Rightarrow> error + rat list list" where
  "check_array X =
     (case those (map those X) of
        None \<Rightarrow> Inl (ValueError ''Input contains NaN'')
      | Some Xf \<Rightarrow> if Xf = [] then Inl (ValueError ''Found array with 0 sample(s)'') else Inr Xf)"

definition check_1d :: "rat option list \<Rightarrow> error + rat list" where
  "check_1d ys =
     (case those ys of
        None \<Rightarrow> Inl (ValueError ''Input contains NaN'')
      | Some yf \<Rightarrow> if yf = [] then Inl (ValueError ''Found array with 0 sample(s)'') else Inr yf)"

definition lr_fit :: "library \<Rightarrow> rat option list list \<Rightarrow> column \<Rightarrow> error + linear_model" where
  "lr_fit lib X y =
     and_then (check_array X) (\<lambda>Xf.
     and_then (numeric_values y) (\<lambda>ys.
     and_then (check_1d ys) (\<lambda>yf.
     if length Xf \<noteq> length yf then Inl (ValueError ''inconsistent numbers of samples'')
     else Inr (ols lib Xf yf))))"

definition dot :: "rat list \<Rightarrow> rat list \<Rightarrow> rat" where
  "dot a b = sum_list (map2 (*) a b)"

definition lr_predict :: "linear_model \<Rightarrow> rat option list list \<Rightarrow> error + rat list" where
  "lr_predict m X =
     and_then (check_array X) (\<lambda>Xf. Inr (map (\<lambda>x. dot (coef m) x + intercept m) Xf))"

text \<open>\<open>pipeline.fit(dicts, y)\<close> and \<open>pipeline.predict(dicts)\<close> of \<open>make_pipeline(dv, lr)\<close>.\<close>

definition pipeline_fit :: "library \<Rightarrow> featdict list \<Rightarrow> column \<Rightarrow> error + pipeline" where
  "pipeline_fit lib dicts y =
     and_then (dv_fit dicts) (\<lambda>names.
     and_then (dv_transform names dicts) (\<lambda>X.
     and_then (lr_fit lib X y) (\<lambda>m.
     Inr \<lparr>feature_names = names, regressor = m\<rparr>)))"

definition pipeline_predict :: "pipeline \<Rightarrow> featdict list \<Rightarrow> error + rat list" where
  "pipeline_predict p dicts =
     and_then (dv_transform (feature_names p) dicts) (\<lambda>X. lr_predict (regressor p) X)"

text \<open>
  \<open>mean_squared_error(y_true, y_pred, squared=False)\<close>, for the library versions that take
  the keyword \<open>squared\<close>: with \<open>False\<close> the square root of the mean squared error.
\<close>

definition rmse :: "rat list \<Rightarrow> rat list \<Rightarrow> real" where
  "rmse y_true y_pred =
     sqrt (of_rat (sum_list (map2 (\<lambda>a b. (a - b)\<^sup>2) y_true y_pred) / of_nat (length y_true)))"

definition mean_squared_error :: "column \<Rightarrow> rat list \<Rightarrow> error + real" where
  "mean_squared_error y_true y_pred =
     (if col_len y_true \<noteq> length y_pred
      then Inl (ValueError ''inconsistent numbers of samples'')
      else and_then (numeric_values y_true) (\<lambda>ys.
           and_then (check_1d ys) (\<lambda>yt.
           Inr (rmse yt y_pred))))"

subsection \<open>\<open>train\<close>\<close>

record date =
  year :: int
  month :: int
  day :: int

text \<open>\<open>base_url.format(year=..., month=...)\<close>.\<close>

definition base_url_format :: "int \<Rightarrow> int \<Rightarrow> string" where
  "base_url_format y m =
     ''https://d37ci6vzurychx.cloudfront.net/trip-data/green_tripdata_'' @ str_int y @ ''-''
       @ format_02d m @ ''.parquet''"

text \<open>
  \<open>with open(out_path, 'wb') as f_out: pickle.dump(pipeline, f_out)\<close>. Opening may fail,
  and then the files are as before. A successful \<open>open\<close> creates or truncates the file; when
  the dump then fails, the exception leaves the \<open>with\<close> block and the truncated file stays.
\<close>

definition pickle_dump :: "world \<Rightarrow> string \<Rightarrow> pipeline \<Rightarrow> (error + unit) \<times> world" where
  "pickle_dump w out_path p =
     (if \<not> writable w out_path then (Inl (OSError out_path), w)
      else let w = w\<lparr>files := (files w)(out_path \<mapsto> Truncated)\<rparr> in
           if \<not> dump_ok w out_path then (Inl (OSError out_path), w)
           else (Inr (), w\<lparr>files := (files w)(out_path \<mapsto> Pickled p)\<rparr>))"

text \<open>Lines 81 to 98: from the two cleaned tables to the fitted pipeline and its error.\<close>

definition fit_and_score :: "library \<Rightarrow> dataframe \<Rightarrow> dataframe \<Rightarrow> error + pipeline \<times> real" where
  "fit_and_score lib df_train df_val =
     (let categorical = [''PULocationID'', ''DOLocationID''];
          numerical = [''trip_distance''];
          target = ''duration'' in
      and_then (getitem_cols df_train (categorical @ numerical)) (\<lambda>x_train.
      let train_dicts = to_dict_records x_train in
      and_then (getitem_cols df_val (categorical @ numerical)) (\<lambda>x_val.
      let val_dicts = to_dict_records x_val in
      and_then (getitem_col df_train target) (\<lambda>y_train.
      and_then (getitem_col df_val target) (\<lambda>y_val.
      and_then (pipeline_fit lib train_dicts y_train) (\<lambda>pipeline.
      and_then (pipeline_predict pipeline val_dicts) (\<lambda>y_pred.
      and_then (mean_squared_error y_val y_pred) (\<lambda>mse.
      Inr (pipeline, mse)))))))))"

definition train :: "library \<Rightarrow> world \<Rightarrow> date \<Rightarrow> date \<Rightarrow> string \<Rightarrow> (error + real) \<times> world" where
  "train lib w train_date val_date out_path =
     (let train_url = base_url_format (year train_date) (month train_date);
          val_url = base_url_format (year val_date) (month val_date);
          (r_train, w) = read_dataframe lib w train_url in
      case r_train of Inl e \<Rightarrow> (Inl e, w) | Inr df_train \<Rightarrow>
      (let (r_val, w) = read_dataframe lib w val_url in
       case r_val of Inl e \<Rightarrow> (Inl e, w) | Inr df_val \<Rightarrow>
       (case fit_and_score lib df_train df_val of Inl e \<Rightarrow> (Inl e, w) | Inr (pipeline, mse) \<Rightarrow>
        (let w = logger w (InfoMse mse);
             w = logger w (Info (''writing model into '' @ out_path));
             (r_dump, w) = pickle_dump w out_path pipeline in
         case r_dump of
           Inl e \<Rightarrow> (Inl e, w)
         | Inr u \<Rightarrow> (Inr mse, w)))))"

section \<open>The specification's notions\<close>

text \<open>
  The derived duration in the specification's words: dropoff minus pickup, as total
  seconds, divided by 60, with the fraction kept; undefined when a timestamp is missing.
\<close>

definition duration_minutes :: "int option \<Rightarrow> int option \<Rightarrow> rat option" where
  "duration_minutes dropoff pickup =
     (case (dropoff, pickup) of
        (Some d, Some p) \<Rightarrow> Some (of_int (d - p) / 1000000000 / 60)
      | _ \<Rightarrow> None)"

text \<open>The retained range: \<open>1 \<le> duration \<le> 60\<close>, both ends included.\<close>

definition in_range :: "rat option \<Rightarrow> bool" where
  "in_range d = (case d of None \<Rightarrow> False | Some m \<Rightarrow> 1 \<le> m \<and> m \<le> 60)"

fun ns_values :: "column \<Rightarrow> int option list" where
  "ns_values (DatetimeCol xs) = xs"
| "ns_values (TimedeltaCol xs) = xs"
| "ns_values _ = []"

text \<open>The derived duration of the source row at position \<open>i\<close>.\<close>

definition row_duration :: "dataframe \<Rightarrow> nat \<Rightarrow> rat option" where
  "row_duration src i =
     (case (map_of (columns src) ''lpep_dropoff_datetime'',
            map_of (columns src) ''lpep_pickup_datetime'') of
        (Some d, Some p) \<Rightarrow> duration_minutes (ns_values d ! i) (ns_values p ! i)
      | _ \<Rightarrow> None)"

text \<open>The positions of the source rows whose duration is in range, in source order.\<close>

definition surviving :: "dataframe \<Rightarrow> nat list" where
  "surviving src = filter (\<lambda>i. in_range (row_duration src i)) [0..<length (index src)]"

text \<open>The entries of a column at the given positions.\<close>

fun select_rows :: "nat list \<Rightarrow> column \<Rightarrow> column" where
  "select_rows ps (IntCol xs) = IntCol (map (nth xs) ps)"
| "select_rows ps (FloatCol xs) = FloatCol (map (nth xs) ps)"
| "select_rows ps (StrCol xs) = StrCol (map (nth xs) ps)"
| "select_rows ps (DatetimeCol xs) = DatetimeCol (map (nth xs) ps)"
| "select_rows ps (TimedeltaCol xs) = TimedeltaCol (map (nth xs) ps)"

definition minutes_of :: "int option list \<Rightarrow> rat option list" where
  "minutes_of ts = map (map_option (\<lambda>ns. seconds_of_ns ns / 60)) ts"

text \<open>
  Root-mean-squared-error in the specification's words: the square root of the mean, over
  the samples, of the squared difference between prediction and actual value.
\<close>

definition root_mean_squared_error :: "rat list \<Rightarrow> rat list \<Rightarrow> real" where
  "root_mean_squared_error actual predicted =
     sqrt (of_rat ((\<Sum>i<length actual. (predicted ! i - actual ! i)\<^sup>2) / of_nat (length actual)))"

text \<open>
  The location of a period in the specification's words: the fixed template, with the year
  and with the month as two digits, zero-padded.
\<close>

definition two_digits :: "nat \<Rightarrow> string" where
  "two_digits m = [digit_char (m div 10), digit_char (m mod 10)]"

definition period_url :: "int \<Rightarrow> int \<Rightarrow> string" where
  "period_url y m =
     ''https://d37ci6vzurychx.cloudfront.net/trip-data/green_tripdata_'' @ str_int y @ ''-''
       @ two_digits (nat m) @ ''.parquet''"

section \<open>A small world\<close>

text \<open>
  January has four trips: 1.5 minutes, 30 seconds (too short), a missing pickup time,
  10 minutes. February has two trips, one from a pickup location that January does not
  have. Every other location is unreachable. Every path can be opened for writing; the
  dump fails on one path, which stands for a full disk.
\<close>

definition frame0 :: dataframe where
  "frame0 = \<lparr>index = [0, 1, 2, 3],
     columns = [
       (''lpep_pickup_datetime'', DatetimeCol [Some 0, Some 1000000000, None, Some 0]),
       (''lpep_dropoff_datetime'',
         DatetimeCol [Some 90000000000, Some 31000000000, Some 5, Some 600000000000]),
       (''PULocationID'', IntCol [74, 75, 76, 41]),
       (''DOLocationID'', IntCol [42, 43, 44, 42]),
       (''trip_distance'', FloatCol [Some (3 / 2), Some 1, Some 2, Some 4])]\<rparr>"

definition frame1 :: dataframe where
  "frame1 = \<lparr>index = [0, 3],
     columns = [
       (''lpep_pickup_datetime'', DatetimeCol [Some 0, Some 0]),
       (''lpep_dropoff_datetime'', DatetimeCol [Some 90000000000, Some 600000000000]),
       (''PULocationID'', StrCol [''74'', ''41'']),
       (''DOLocationID'', StrCol [''42'', ''42'']),
       (''trip_distance'', FloatCol [Some (3 / 2), Some 4]),
       (''duration'', FloatCol [Some (3 / 2), Some 10])]\<rparr>"

definition frame_feb :: dataframe where
  "frame_feb = \<lparr>index = [0, 1],
     columns = [
       (''lpep_pickup_datetime'', DatetimeCol [Some 0, Some 0]),
       (''lpep_dropoff_datetime'', DatetimeCol [Some 120000000000, Some 300000000000]),
       (''PULocationID'', IntCol [74, 99]),
       (''DOLocationID'', IntCol [42, 7]),
       (''trip_distance'', FloatCol [Some 1, Some 2])]\<rparr>"

definition frame_feb1 :: dataframe where
  "frame_feb1 = \<lparr>index = [0, 1],
     columns = [
       (''lpep_pickup_datetime'', DatetimeCol [Some 0, Some 0]),
       (''lpep_dropoff_datetime'', DatetimeCol [Some 120000000000, Some 300000000000]),
       (''PULocationID'', StrCol [''74'', ''99'']),
       (''DOLocationID'', StrCol [''42'', ''7'']),
       (''trip_distance'', FloatCol [Some 1, Some 2]),
       (''duration'', FloatCol [Some 2, Some 5])]\<rparr>"

text \<open>A stand-in library: a solver that predicts the mean of the targets.\<close>

definition lib0 :: library where
  "lib0 = \<lparr>render = (\<lambda>x. ''nan''),
     ols = (\<lambda>X y. \<lparr>coef = map (\<lambda>x. 0) (hd X), intercept = sum_list y / of_nat (length y)\<rparr>)\<rparr>"

definition url0 :: string where
  "url0 = ''https://d37ci6vzurychx.cloudfront.net/trip-data/green_tripdata_2022-01.parquet''"

definition url_feb :: string where
  "url_feb = ''https://d37ci6vzurychx.cloudfront.net/trip-data/green_tripdata_2022-02.parquet''"

definition world0 :: world where
  "world0 = \<lparr>source = (\<lambda>f. if f = url0 then Inr frame0
                            else if f = url_feb then Inr frame_feb else Inl (ReadError f)),
      files = Map.empty, writable = (\<lambda>p. True), dump_ok = (\<lambda>p. p \<noteq> ''/full/model.bin''),
      log = []\<rparr>"

definition date_jan :: date where
  "date_jan = \<lparr>year = 2022, month = 1, day = 1\<rparr>"

definition date_jan15 :: date where
  "date_jan15 = \<lparr>year = 2022, month = 1, day = 15\<rparr>"

definition date_feb :: date where
  "date_feb = \<lparr>year = 2022, month = 2, day = 1\<rparr>"

definition date_mar :: date where
  "date_mar = \<lparr>year = 2022, month = 3, day = 1\<rparr>"

definition features0 :: "string list" where
  "features0 = [''PULocationID'', ''DOLocationID'', ''trip_distance'']"

definition pipeline0 :: pipeline where
  "pipeline0 =
     \<lparr>feature_names = [''DOLocationID=42'', ''PULocationID=41'', ''PULocationID=74'', ''trip_distance''],
      regressor = \<lparr>coef = [0, 0, 0, 0], intercept = 23 / 4\<rparr>\<rparr>"

section \<open>Properties of the Loader\<close>

lemma map_of_set_column: "map_of (set_column n c cs) = (map_of cs)(n \<mapsto> c)"
  by (induction cs) (auto simp: fun_eq_iff)

lemma names_set_column:
  "map fst (set_column n c cs) = (if n \<in> set (map fst cs) then map fst cs else map fst cs @ [n])"
  by (induction cs) force+

lemma filter_by_nth:
  assumes "length bs = length xs"
  shows "filter_by bs xs = map (nth xs) (filter (nth bs) [0..<length xs])"
proof -
  have "zip bs xs = map (\<lambda>i. (bs ! i, xs ! i)) [0..<length xs]"
    using assms by (intro nth_equalityI) auto
  then show ?thesis
    by (simp add: filter_by_def filter_map comp_def)
qed

lemma and_then_Inr: "and_then m f = Inr y \<longleftrightarrow> (\<exists>x. m = Inr x \<and> f x = Inr y)"
  by (cases m) (auto simp: and_then_def)

lemma and_then_Inl: "and_then m f = Inl e \<longleftrightarrow> (m = Inl e \<or> (\<exists>x. m = Inr x \<and> f x = Inl e))"
  by (cases m) (auto simp: and_then_def)

lemma getattr_col_Inr: "getattr_col df n = Inr c \<longleftrightarrow> map_of (columns df) n = Some c"
  by (auto simp: getattr_col_def split: option.splits)

lemma getattr_setitem: "getattr_col (setitem_col df n c) n = Inr c"
  by (simp add: getattr_col_def setitem_col_def map_of_set_column)

lemma dt_total_seconds_Inr:
  "dt_total_seconds d = Inr s \<longleftrightarrow> (\<exists>ts. d = TimedeltaCol ts \<and> s = FloatCol (map (map_option seconds_of_ns) ts))"
  by (cases d) auto

lemma setitem_col_twice: "setitem_col (setitem_col df n a) n b = setitem_col df n b"
proof -
  have "set_column n b (set_column n a cs) = set_column n b cs" for cs
    by (induction cs) auto
  then show ?thesis by (simp add: setitem_col_def)
qed

lemma range_mask:
  "mask_and (map (\<lambda>x. case x of None \<Rightarrow> False | Some v \<Rightarrow> 1 \<le> v) ms)
            (map (\<lambda>x. case x of None \<Rightarrow> False | Some v \<Rightarrow> v \<le> 60) ms) = map in_range ms"
  by (auto simp: mask_and_def map2_map_map in_range_def split: option.splits)

lemma div_total_seconds:
  "div_scalar (FloatCol (map (map_option seconds_of_ns) ts)) 60 = Inr (FloatCol (minutes_of ts))"
  by (simp add: minutes_of_def comp_def option.map_comp)

lemma try_Inr:
  assumes "read_dataframe_try lib w f = Inr out"
  shows "\<exists>src dropoff pickup ts sub.
     source w f = Inr src \<and>
     map_of (columns src) ''lpep_dropoff_datetime'' = Some dropoff \<and>
     map_of (columns src) ''lpep_pickup_datetime'' = Some pickup \<and>
     sub_columns dropoff pickup = Inr (TimedeltaCol ts) \<and>
     getitem_cols (filter_rows (map in_range (minutes_of ts))
        (setitem_col src ''duration'' (FloatCol (minutes_of ts)))) [''PULocationID'', ''DOLocationID''] = Inr sub \<and>
     out = setitem_cols (filter_rows (map in_range (minutes_of ts))
        (setitem_col src ''duration'' (FloatCol (minutes_of ts)))) (frame_astype_str (render lib) sub)"
proof -
  from assms obtain src dropoff pickup delta where
    src: "source w f = Inr src"
    and dropoff: "map_of (columns src) ''lpep_dropoff_datetime'' = Some dropoff"
    and pickup: "map_of (columns src) ''lpep_pickup_datetime'' = Some pickup"
    and delta: "sub_columns dropoff pickup = Inr delta"
    and rest: "and_then (dt_total_seconds delta) (\<lambda>secs.
       and_then (div_scalar secs 60) (\<lambda>mins.
       let df = setitem_col src ''duration'' mins in
       and_then (getattr_col df ''duration'') (\<lambda>d1.
       and_then (ge_scalar d1 1) (\<lambda>lo.
       and_then (getattr_col df ''duration'') (\<lambda>d2.
       and_then (le_scalar d2 60) (\<lambda>hi.
       let df = filter_rows (mask_and lo hi) df in
       and_then (getitem_cols df [''PULocationID'', ''DOLocationID'']) (\<lambda>sub.
       Inr (setitem_cols df (frame_astype_str (render lib) sub))))))))) = Inr out"
    unfolding read_dataframe_try_def Let_def
    by (auto simp: and_then_Inr getattr_col_Inr getattr_setitem setitem_col_twice)
  from rest obtain ts where ts: "delta = TimedeltaCol ts"
    by (auto simp: and_then_Inr dt_total_seconds_Inr)
  from rest obtain sub where
    "getitem_cols (filter_rows (map in_range (minutes_of ts))
        (setitem_col src ''duration'' (FloatCol (minutes_of ts)))) [''PULocationID'', ''DOLocationID''] = Inr sub"
    "out = setitem_cols (filter_rows (map in_range (minutes_of ts))
        (setitem_col src ''duration'' (FloatCol (minutes_of ts)))) (frame_astype_str (render lib) sub)"
    unfolding ts Let_def
    by (auto simp: and_then_Inr div_total_seconds getattr_setitem range_mask
        simp del: div_scalar.simps)
  with src dropoff pickup delta ts show ?thesis by blast
qed

lemma filter_col_select:
  "col_len c = length bs \<Longrightarrow> filter_col bs c = select_rows (filter (nth bs) [0..<length bs]) c"
  by (cases c) (simp_all add: filter_by_nth)

lemma sub_columns_Timedelta:
  assumes "sub_columns a b = Inr (TimedeltaCol ts)"
  shows "ts = map2 sub_ns (ns_values a) (ns_values b)"
  using assms by (cases a; cases b) (auto simp: checked_ns_def split: if_splits sum.splits)

lemma sub_columns_Timedelta_len:
  assumes "sub_columns a b = Inr (TimedeltaCol ts)"
  shows "col_len a = length (ns_values a) \<and> col_len b = length (ns_values b)"
  using assms by (cases a; cases b) (auto simp: checked_ns_def split: if_splits sum.splits)

lemma minutes_of_nth:
  assumes "i < length a" "i < length b"
  shows "minutes_of (map2 sub_ns a b) ! i = duration_minutes (a ! i) (b ! i)"
  using assms
  by (cases "a ! i"; cases "b ! i") (simp_all add: minutes_of_def duration_minutes_def seconds_of_ns_def)

lemma wf_col_len: "wf_frame df \<Longrightarrow> map_of (columns df) n = Some c \<Longrightarrow> col_len c = length (index df)"
  by (auto simp: wf_frame_def list_all_iff dest!: map_of_SomeD)

lemma minutes_row_duration:
  assumes wf: "wf_frame src"
    and d: "map_of (columns src) ''lpep_dropoff_datetime'' = Some dropoff"
    and p: "map_of (columns src) ''lpep_pickup_datetime'' = Some pickup"
    and sub: "sub_columns dropoff pickup = Inr (TimedeltaCol ts)"
  shows "length ts = length (index src)"
    and "i < length (index src) \<Longrightarrow> minutes_of ts ! i = row_duration src i"
proof -
  have la: "length (ns_values dropoff) = length (index src)"
    using wf_col_len[OF wf d] sub_columns_Timedelta_len[OF sub] by simp
  have lb: "length (ns_values pickup) = length (index src)"
    using wf_col_len[OF wf p] sub_columns_Timedelta_len[OF sub] by simp
  have ts: "ts = map2 sub_ns (ns_values dropoff) (ns_values pickup)"
    by (rule sub_columns_Timedelta[OF sub])
  show "length ts = length (index src)" by (simp add: ts la lb)
  show "minutes_of ts ! i = row_duration src i" if "i < length (index src)"
    using that by (simp add: ts row_duration_def d p minutes_of_nth la lb)
qed

lemma surviving_mask:
  assumes "length ts = length (index src)"
    and "\<And>i. i < length (index src) \<Longrightarrow> minutes_of ts ! i = row_duration src i"
  shows "filter (nth (map in_range (minutes_of ts))) [0..<length (map in_range (minutes_of ts))] = surviving src"
    and "map (nth (minutes_of ts)) (surviving src) = map (row_duration src) (surviving src)"
proof -
  have len: "length (minutes_of ts) = length (index src)"
    using assms(1) by (simp add: minutes_of_def)
  show "filter (nth (map in_range (minutes_of ts))) [0..<length (map in_range (minutes_of ts))] = surviving src"
    unfolding surviving_def using assms(2) len by (auto intro!: filter_cong)
  show "map (nth (minutes_of ts)) (surviving src) = map (row_duration src) (surviving src)"
    unfolding surviving_def using assms(2) by auto
qed

lemma getitem_cols_two:
  "getitem_cols df [a, b] = Inr sub \<longleftrightarrow>
     (\<exists>ca cb. map_of (columns df) a = Some ca \<and> map_of (columns df) b = Some cb \<and>
        sub = df\<lparr>columns := [(a, ca), (b, cb)]\<rparr>)"
  by (auto simp: getitem_cols_def split: list.splits if_splits)

lemma map_of_filter_rows:
  "map_of (columns (filter_rows bs df)) n = map_option (filter_col bs) (map_of (columns df) n)"
  by (simp add: filter_rows_def map_of_map)

lemma names_filter_rows: "map fst (columns (filter_rows bs df)) = map fst (columns df)"
  by (simp add: filter_rows_def comp_def case_prod_unfold)

lemma map_of_setitem_col:
  "map_of (columns (setitem_col df n c)) = (map_of (columns df))(n \<mapsto> c)"
  by (simp add: setitem_col_def map_of_set_column)

lemma names_setitem_col:
  "map fst (columns (setitem_col df n c)) =
     (if n \<in> set (map fst (columns df)) then map fst (columns df) else map fst (columns df) @ [n])"
  by (simp add: setitem_col_def names_set_column)

lemma index_setitem_col: "index (setitem_col df n c) = index df"
  by (simp add: setitem_col_def)

lemma setitem_cols_two:
  "setitem_cols df (frame_astype_str r (d\<lparr>columns := [(a, ca), (b, cb)]\<rparr>)) =
     setitem_col (setitem_col df a (astype_str r ca)) b (astype_str r cb)"
  by (simp add: setitem_cols_def frame_astype_str_def)

lemma map_of_names: "map_of cs n = Some c \<Longrightarrow> n \<in> set (map fst cs)"
  by (auto dest!: map_of_SomeD intro: rev_image_eqI)

lemma loader_output:
  assumes run: "read_dataframe_try lib w f = Inr out"
    and src: "source w f = Inr src" and wf: "wf_frame src"
  shows "index out = map (nth (index src)) (surviving src)"
    and "\<exists>c. map_of (columns src) ''PULocationID'' = Some c \<and>
           map_of (columns out) ''PULocationID'' = Some (astype_str (render lib) (select_rows (surviving src) c))"
    and "\<exists>c. map_of (columns src) ''DOLocationID'' = Some c \<and>
           map_of (columns out) ''DOLocationID'' = Some (astype_str (render lib) (select_rows (surviving src) c))"
    and "map_of (columns out) ''duration'' = Some (FloatCol (map (row_duration src) (surviving src)))"
    and "n \<notin> {''duration'', ''PULocationID'', ''DOLocationID''} \<Longrightarrow>
           map_of (columns out) n = map_option (select_rows (surviving src)) (map_of (columns src) n)"
    and "map fst (columns out) =
           (if ''duration'' \<in> set (map fst (columns src)) then map fst (columns src)
            else map fst (columns src) @ [''duration''])"
proof -
  from try_Inr[OF run] src obtain dropoff pickup ts sub where
    d: "map_of (columns src) ''lpep_dropoff_datetime'' = Some dropoff"
    and p: "map_of (columns src) ''lpep_pickup_datetime'' = Some pickup"
    and sub: "sub_columns dropoff pickup = Inr (TimedeltaCol ts)"
    and g: "getitem_cols (filter_rows (map in_range (minutes_of ts))
        (setitem_col src ''duration'' (FloatCol (minutes_of ts)))) [''PULocationID'', ''DOLocationID''] = Inr sub"
    and out: "out = setitem_cols (filter_rows (map in_range (minutes_of ts))
        (setitem_col src ''duration'' (FloatCol (minutes_of ts)))) (frame_astype_str (render lib) sub)"
    by auto
  define bs where "bs = map in_range (minutes_of ts)"
  define df1 where "df1 = setitem_col src ''duration'' (FloatCol (minutes_of ts))"
  define df2 where "df2 = filter_rows bs df1"
  note lens = minutes_row_duration[OF wf d p sub]
  have lbs: "length bs = length (index src)"
    by (simp add: bs_def minutes_of_def lens(1))
  have keep: "filter (nth bs) [0..<length bs] = surviving src"
    unfolding bs_def by (rule surviving_mask(1)[OF lens])
  have sel: "filter_col bs c = select_rows (surviving src) c" if "col_len c = length (index src)" for c
    using filter_col_select[of c bs] that lbs keep by simp
  from g obtain ca cb where
    ca: "map_of (columns df2) ''PULocationID'' = Some ca"
    and cb: "map_of (columns df2) ''DOLocationID'' = Some cb"
    and sub_eq: "sub = df2\<lparr>columns := [(''PULocationID'', ca), (''DOLocationID'', cb)]\<rparr>"
    unfolding getitem_cols_two df2_def df1_def bs_def by blast
  have out2: "out = setitem_col (setitem_col df2 ''PULocationID'' (astype_str (render lib) ca))
      ''DOLocationID'' (astype_str (render lib) cb)"
    unfolding out sub_eq df2_def df1_def bs_def by (simp only: setitem_cols_two)
  have m2: "map_of (columns df2) n = map_option (filter_col bs) (((map_of (columns src))(''duration'' \<mapsto> FloatCol (minutes_of ts))) n)" for n
    by (simp add: df2_def df1_def map_of_filter_rows map_of_setitem_col)
  show "index out = map (nth (index src)) (surviving src)"
    using lbs keep
    by (simp add: out2 index_setitem_col df2_def df1_def filter_rows_def filter_by_nth)
  from ca obtain c where c: "map_of (columns src) ''PULocationID'' = Some c" "ca = filter_col bs c"
    by (auto simp: m2)
  then show "\<exists>c. map_of (columns src) ''PULocationID'' = Some c \<and>
           map_of (columns out) ''PULocationID'' = Some (astype_str (render lib) (select_rows (surviving src) c))"
    using sel[OF wf_col_len[OF wf c(1)]] by (simp add: out2 map_of_setitem_col)
  from cb obtain c' where c': "map_of (columns src) ''DOLocationID'' = Some c'" "cb = filter_col bs c'"
    by (auto simp: m2)
  then show "\<exists>c. map_of (columns src) ''DOLocationID'' = Some c \<and>
           map_of (columns out) ''DOLocationID'' = Some (astype_str (render lib) (select_rows (surviving src) c))"
    using sel[OF wf_col_len[OF wf c'(1)]] by (simp add: out2 map_of_setitem_col)
  have "filter_by bs (minutes_of ts) = map (row_duration src) (surviving src)"
    using surviving_mask(2)[OF lens] keep lbs
    by (simp add: filter_by_nth minutes_of_def lens(1))
  then show "map_of (columns out) ''duration'' = Some (FloatCol (map (row_duration src) (surviving src)))"
    by (simp add: out2 map_of_setitem_col m2)
  show "map_of (columns out) n = map_option (select_rows (surviving src)) (map_of (columns src) n)"
    if "n \<notin> {''duration'', ''PULocationID'', ''DOLocationID''}"
  proof (cases "map_of (columns src) n")
    case None
    then show ?thesis using that by (simp add: out2 map_of_setitem_col m2)
  next
    case (Some c)
    then show ?thesis using that sel[OF wf_col_len[OF wf Some]]
      by (simp add: out2 map_of_setitem_col m2)
  qed
  have n2: "map fst (columns df2) =
           (if ''duration'' \<in> set (map fst (columns src)) then map fst (columns src)
            else map fst (columns src) @ [''duration''])"
    by (simp add: df2_def df1_def names_filter_rows names_setitem_col)
  show "map fst (columns out) =
           (if ''duration'' \<in> set (map fst (columns src)) then map fst (columns src)
            else map fst (columns src) @ [''duration''])"
    using map_of_names[OF ca] map_of_names[OF cb]
    by (simp add: out2 names_setitem_col n2 del: set_map)
qed

lemma try_ignores_log: "read_dataframe_try lib (logger w r) f = read_dataframe_try lib w f"
  by (simp add: read_dataframe_try_def logger_def)

lemma read_dataframe_fst: "fst (read_dataframe lib w f) = read_dataframe_try lib w f"
  by (simp add: read_dataframe_def Let_def try_ignores_log split: sum.splits)

lemma read_dataframe_world:
  "source (snd (read_dataframe lib w f)) = source w"
  "files (snd (read_dataframe lib w f)) = files w"
  "writable (snd (read_dataframe lib w f)) = writable w"
  "dump_ok (snd (read_dataframe lib w f)) = dump_ok w"
  by (simp_all add: read_dataframe_def Let_def logger_def split: sum.splits)

lemma astype_str_StrCol: "\<exists>xs. astype_str r c = StrCol xs \<and> length xs = col_len c"
  by (cases c) simp_all

lemma col_len_select_rows: "col_len (select_rows ps c) = length ps"
  by (cases c) simp_all

lemma sorted_surviving: "sorted_wrt (<) (surviving src)"
  by (simp add: surviving_def sorted_wrt_filter)

lemma set_surviving:
  "set (surviving src) =
     {i. i < length (index src) \<and> (\<exists>m. row_duration src i = Some m \<and> 1 \<le> m \<and> m \<le> 60)}"
  by (auto simp: surviving_def in_range_def split: option.splits)

lemma eval_try0: "read_dataframe_try lib0 world0 url0 = Inr frame1"
  by code_simp

lemma eval_source0: "source world0 url0 = Inr frame0"
  by (simp add: world0_def)

lemma eval_wf0: "wf_frame frame0"
  by code_simp

lemma eval_run0:
  "read_dataframe lib0 world0 url0 = (Inr frame1, snd (read_dataframe lib0 world0 url0))"
  using read_dataframe_fst[of lib0 world0 url0] eval_try0
  by (metis prod.collapse)

section \<open>Claims about the Loader\<close>

text \<open>
  C1. A source row is in the table returned by \<open>read_dataframe\<close> exactly when its derived
  duration, the nanoseconds from pickup to dropoff as seconds divided by 60 with the
  fraction kept, lies between 1 and 60 inclusive: the row labels of the result are the
  labels of the rows in range, in source order, and the duration column holds their exact
  durations. Nothing else drops a row.
\<close>

theorem C1_duration_filter:
  assumes "read_dataframe lib w filename = (Inr out, w')"
    and "source w filename = Inr src"
    and "wf_frame src"
  shows "index out = map (nth (index src)) (surviving src) \<and>
         map_of (columns out) ''duration'' = Some (FloatCol (map (row_duration src) (surviving src))) \<and>
         set (surviving src) =
           {i. i < length (index src) \<and> (\<exists>m. row_duration src i = Some m \<and> 1 \<le> m \<and> m \<le> 60)} \<and>
         (\<exists>dropoff pickup.
            map_of (columns src) ''lpep_dropoff_datetime'' = Some dropoff \<and>
            map_of (columns src) ''lpep_pickup_datetime'' = Some pickup \<and>
            (\<forall>i. row_duration src i = duration_minutes (ns_values dropoff ! i) (ns_values pickup ! i)))"
proof -
  have run: "read_dataframe_try lib w filename = Inr out"
    using assms(1) read_dataframe_fst[of lib w filename] by simp
  from try_Inr[OF run] assms(2) obtain dropoff pickup where
    "map_of (columns src) ''lpep_dropoff_datetime'' = Some dropoff"
    "map_of (columns src) ''lpep_pickup_datetime'' = Some pickup"
    by auto
  then have "\<exists>dropoff pickup.
            map_of (columns src) ''lpep_dropoff_datetime'' = Some dropoff \<and>
            map_of (columns src) ''lpep_pickup_datetime'' = Some pickup \<and>
            (\<forall>i. row_duration src i = duration_minutes (ns_values dropoff ! i) (ns_values pickup ! i))"
    by (simp add: row_duration_def)
  then show ?thesis
    using loader_output(1)[OF run assms(2,3)] loader_output(4)[OF run assms(2,3)] set_surviving[of src]
    by blast
qed

theorem C1_duration_filter_witness:
  "index frame1 = [0, 3] \<and> surviving frame0 = [0, 3] \<and>
   map_of (columns frame1) ''duration'' = Some (FloatCol [Some (3 / 2), Some 10])"
proof -
  have "surviving frame0 = [0, 3]" by code_simp
  moreover have "map (row_duration frame0) [0, 3] = [Some (3 / 2), Some 10]" by code_simp
  moreover have "index frame1 = [0, 3]" by (simp add: frame1_def)
  ultimately show ?thesis
    using C1_duration_filter[OF eval_run0 eval_source0 eval_wf0] by simp
qed

text \<open>
  C6. In every table returned by \<open>read_dataframe\<close> the columns \<open>PULocationID\<close> and
  \<open>DOLocationID\<close> are text columns with one string per returned row: the source column
  restricted to the rows that survived the filter, converted to text.
\<close>

theorem C6_identifiers_are_text:
  assumes "read_dataframe lib w filename = (Inr out, w')"
    and "source w filename = Inr src"
    and "wf_frame src"
  shows "\<exists>ps ds cp cd.
           map_of (columns out) ''PULocationID'' = Some (StrCol ps) \<and>
           map_of (columns out) ''DOLocationID'' = Some (StrCol ds) \<and>
           length ps = length (index out) \<and> length ds = length (index out) \<and>
           map_of (columns src) ''PULocationID'' = Some cp \<and>
           map_of (columns src) ''DOLocationID'' = Some cd \<and>
           StrCol ps = astype_str (render lib) (select_rows (surviving src) cp) \<and>
           StrCol ds = astype_str (render lib) (select_rows (surviving src) cd)"
proof -
  have run: "read_dataframe_try lib w filename = Inr out"
    using assms(1) read_dataframe_fst[of lib w filename] by simp
  note out = loader_output[OF run assms(2,3)]
  from out(2) obtain cp where cp: "map_of (columns src) ''PULocationID'' = Some cp"
    "map_of (columns out) ''PULocationID'' = Some (astype_str (render lib) (select_rows (surviving src) cp))"
    by blast
  from out(3) obtain cd where cd: "map_of (columns src) ''DOLocationID'' = Some cd"
    "map_of (columns out) ''DOLocationID'' = Some (astype_str (render lib) (select_rows (surviving src) cd))"
    by blast
  obtain ps where ps: "astype_str (render lib) (select_rows (surviving src) cp) = StrCol ps"
    "length ps = length (surviving src)"
    using astype_str_StrCol[of "render lib" "select_rows (surviving src) cp"]
    by (auto simp: col_len_select_rows)
  obtain ds where ds: "astype_str (render lib) (select_rows (surviving src) cd) = StrCol ds"
    "length ds = length (surviving src)"
    using astype_str_StrCol[of "render lib" "select_rows (surviving src) cd"]
    by (auto simp: col_len_select_rows)
  have "length (index out) = length (surviving src)"
    by (simp add: out(1))
  with cp cd ps ds show ?thesis by auto
qed

theorem C6_identifiers_are_text_witness:
  "map_of (columns frame1) ''PULocationID'' = Some (StrCol [''74'', ''41'']) \<and>
   map_of (columns frame1) ''DOLocationID'' = Some (StrCol [''42'', ''42'']) \<and>
   length (index frame1) = 2"
proof -
  have "map_of (columns frame1) ''PULocationID'' = Some (StrCol [''74'', ''41''])" by code_simp
  moreover have "map_of (columns frame1) ''DOLocationID'' = Some (StrCol [''42'', ''42''])" by code_simp
  ultimately show ?thesis
    using C6_identifiers_are_text[OF eval_run0 eval_source0 eval_wf0] by auto
qed

text \<open>
  C9. \<open>read_dataframe\<close> changes nothing else: every source column other than \<open>duration\<close>,
  \<open>PULocationID\<close> and \<open>DOLocationID\<close> is returned with the source values of the surviving
  rows, no other column appears, the columns keep their order (\<open>duration\<close> is appended when
  the source has none), and the surviving rows keep their source order.
\<close>

theorem C9_loader_frame:
  assumes "read_dataframe lib w filename = (Inr out, w')"
    and "source w filename = Inr src"
    and "wf_frame src"
  shows "(\<forall>n. n \<notin> {''duration'', ''PULocationID'', ''DOLocationID''} \<longrightarrow>
            map_of (columns out) n = map_option (select_rows (surviving src)) (map_of (columns src) n)) \<and>
         map fst (columns out) =
           (if ''duration'' \<in> set (map fst (columns src)) then map fst (columns src)
            else map fst (columns src) @ [''duration'']) \<and>
         index out = map (nth (index src)) (surviving src) \<and>
         sorted_wrt (<) (surviving src)"
proof -
  have run: "read_dataframe_try lib w filename = Inr out"
    using assms(1) read_dataframe_fst[of lib w filename] by simp
  note out = loader_output[OF run assms(2,3)]
  show ?thesis
    using out(1) out(5) out(6) sorted_surviving[of src] by blast
qed

theorem C9_loader_frame_witness:
  "map_of (columns frame1) ''trip_distance'' = Some (FloatCol [Some (3 / 2), Some 4]) \<and>
   map fst (columns frame1) = map fst (columns frame0) @ [''duration'']"
proof -
  have a: "surviving frame0 = [0, 3]" by code_simp
  have b: "map_of (columns frame0) ''trip_distance'' = Some (FloatCol [Some (3 / 2), Some 1, Some 2, Some 4])"
    by code_simp
  have c: "''duration'' \<notin> set (map fst (columns frame0))" by code_simp
  have d: "''trip_distance'' \<notin> {''duration'', ''PULocationID'', ''DOLocationID''}" by simp
  show ?thesis
    using C9_loader_frame[OF eval_run0 eval_source0 eval_wf0] a b c d by simp
qed

text \<open>
  C5. When the source cannot be read, or the table cannot be processed (a timestamp column
  is missing), \<open>read_dataframe\<close> fails with that failure; and whenever it fails, it has
  logged the location and the failure itself after its opening line, changed nothing else,
  and returned no table.
\<close>

theorem C5_log_and_reraise:
  "(source w filename = Inl e \<longrightarrow> fst (read_dataframe lib w filename) = Inl e) \<and>
   (source w filename = Inr src \<and> map_of (columns src) ''lpep_dropoff_datetime'' = None \<longrightarrow>
      fst (read_dataframe lib w filename) = Inl (AttributeError ''lpep_dropoff_datetime'')) \<and>
   (fst (read_dataframe lib w filename) = Inl e \<longrightarrow>
      snd (read_dataframe lib w filename) =
        w\<lparr>log := log w @ [Info (''loading file: '' @ filename),
                           Error (''error reading: '' @ filename), ErrorExc e]\<rparr>)"
proof (intro conjI impI)
  assume "source w filename = Inl e"
  then show "fst (read_dataframe lib w filename) = Inl e"
    by (simp add: read_dataframe_fst read_dataframe_try_def and_then_def)
next
  assume "source w filename = Inr src \<and> map_of (columns src) ''lpep_dropoff_datetime'' = None"
  then show "fst (read_dataframe lib w filename) = Inl (AttributeError ''lpep_dropoff_datetime'')"
    by (simp add: read_dataframe_fst read_dataframe_try_def and_then_def getattr_col_def)
next
  assume "fst (read_dataframe lib w filename) = Inl e"
  then have "read_dataframe_try lib w filename = Inl e"
    by (simp add: read_dataframe_fst)
  then have "snd (read_dataframe lib w filename) =
        logger (logger (logger w (Info (''loading file: '' @ filename)))
          (Error (''error reading: '' @ filename))) (ErrorExc e)"
    by (simp add: read_dataframe_def Let_def try_ignores_log)
  then show "snd (read_dataframe lib w filename) =
        w\<lparr>log := log w @ [Info (''loading file: '' @ filename),
                           Error (''error reading: '' @ filename), ErrorExc e]\<rparr>"
    by (simp add: logger_def)
qed

theorem C5_log_and_reraise_witness:
  "fst (read_dataframe lib0 world0 ''nowhere'') = Inl (ReadError ''nowhere'') \<and>
   log (snd (read_dataframe lib0 world0 ''nowhere'')) =
     [Info ''loading file: nowhere'', Error ''error reading: nowhere'',
      ErrorExc (ReadError ''nowhere'')]"
proof -
  have src: "source world0 ''nowhere'' = Inl (ReadError ''nowhere'')"
    by (simp add: world0_def url0_def url_feb_def)
  have "log world0 = []" by (simp add: world0_def)
  then show ?thesis
    using C5_log_and_reraise[of world0 "''nowhere''" "ReadError ''nowhere''" lib0] src
    by simp
qed

text \<open>
  C8. \<open>read_dataframe\<close> leaves the sources as they are, and a second call on the same
  location returns what the first call returned: the same failure, or the same table with
  the same rows in the same order.
\<close>

theorem C8_loader_deterministic:
  "source (snd (read_dataframe lib w filename)) = source w \<and>
   fst (read_dataframe lib (snd (read_dataframe lib w filename)) filename) =
     fst (read_dataframe lib w filename)"
proof -
  have "read_dataframe_try lib (snd (read_dataframe lib w filename)) filename =
        read_dataframe_try lib w filename"
    by (simp add: read_dataframe_try_def read_dataframe_world)
  then show ?thesis
    by (simp add: read_dataframe_fst read_dataframe_world)
qed

section \<open>Properties of the Trainer\<close>

lemma try_cong:
  "source w2 f = source w f \<Longrightarrow> read_dataframe_try lib w2 f = read_dataframe_try lib w f"
  by (simp add: read_dataframe_try_def)

lemma read_dataframe_snd_Inl:
  "read_dataframe_try lib w f = Inl e \<Longrightarrow>
     snd (read_dataframe lib w f) =
       logger (logger (logger w (Info (''loading file: '' @ f))) (Error (''error reading: '' @ f)))
         (ErrorExc e)"
  by (simp add: read_dataframe_def Let_def try_ignores_log)

lemma read_dataframe_snd_Inr:
  "read_dataframe_try lib w f = Inr df \<Longrightarrow>
     snd (read_dataframe lib w f) =
       logger (logger w (Info (''loading file: '' @ f)))
         (Info (f @ '' had '' @ str_nat (length (index df)) @ '' rows''))"
  by (simp add: read_dataframe_def Let_def try_ignores_log)

lemma logger_source_update: "logger (w\<lparr>source := s\<rparr>) r = (logger w r)\<lparr>source := s\<rparr>"
  by (simp add: logger_def)

lemma read_dataframe_source_update:
  assumes "s f = source w f"
  shows "read_dataframe lib (w\<lparr>source := s\<rparr>) f =
           (fst (read_dataframe lib w f), (snd (read_dataframe lib w f))\<lparr>source := s\<rparr>)"
proof -
  have t: "read_dataframe_try lib (w\<lparr>source := s\<rparr>) f = read_dataframe_try lib w f"
    using assms by (intro try_cong) simp
  show ?thesis
  proof (cases "read_dataframe_try lib w f")
    case (Inl e)
    then show ?thesis
      using t read_dataframe_fst[of lib "w\<lparr>source := s\<rparr>" f]
        read_dataframe_snd_Inl[of lib "w\<lparr>source := s\<rparr>" f e]
        read_dataframe_snd_Inl[of lib w f e] read_dataframe_fst[of lib w f]
      by (simp add: prod_eq_iff logger_source_update)
  next
    case (Inr df)
    then show ?thesis
      using t read_dataframe_fst[of lib "w\<lparr>source := s\<rparr>" f]
        read_dataframe_snd_Inr[of lib "w\<lparr>source := s\<rparr>" f df]
        read_dataframe_snd_Inr[of lib w f df] read_dataframe_fst[of lib w f]
      by (simp add: prod_eq_iff logger_source_update)
  qed
qed

text \<open>\<open>train\<close> in terms of the results of its steps.\<close>

lemma train_load_train_fails:
  assumes "fst (read_dataframe lib w (base_url_format (year td) (month td))) = Inl e"
  shows "train lib w td vd out =
           (Inl e, snd (read_dataframe lib w (base_url_format (year td) (month td))))"
  using assms by (simp add: train_def Let_def case_prod_unfold)

lemma train_load_val_fails:
  assumes "fst (read_dataframe lib w (base_url_format (year td) (month td))) = Inr df_train"
    and "fst (read_dataframe lib (snd (read_dataframe lib w (base_url_format (year td) (month td))))
           (base_url_format (year vd) (month vd))) = Inl e"
  shows "train lib w td vd out =
           (Inl e, snd (read_dataframe lib (snd (read_dataframe lib w (base_url_format (year td) (month td))))
              (base_url_format (year vd) (month vd))))"
  using assms by (simp add: train_def Let_def case_prod_unfold)

lemma train_fit_fails:
  assumes "fst (read_dataframe lib w (base_url_format (year td) (month td))) = Inr df_train"
    and "fst (read_dataframe lib (snd (read_dataframe lib w (base_url_format (year td) (month td))))
           (base_url_format (year vd) (month vd))) = Inr df_val"
    and "fit_and_score lib df_train df_val = Inl e"
  shows "train lib w td vd out =
           (Inl e, snd (read_dataframe lib (snd (read_dataframe lib w (base_url_format (year td) (month td))))
              (base_url_format (year vd) (month vd))))"
  using assms by (simp add: train_def Let_def case_prod_unfold)

lemma train_fitted:
  assumes "fst (read_dataframe lib w (base_url_format (year td) (month td))) = Inr df_train"
    and "fst (read_dataframe lib (snd (read_dataframe lib w (base_url_format (year td) (month td))))
           (base_url_format (year vd) (month vd))) = Inr df_val"
    and "fit_and_score lib df_train df_val = Inr (p, mse)"
  shows "train lib w td vd out =
           (let w2 = snd (read_dataframe lib (snd (read_dataframe lib w (base_url_format (year td) (month td))))
                     (base_url_format (year vd) (month vd)));
                w4 = logger (logger w2 (InfoMse mse)) (Info (''writing model into '' @ out))
            in if \<not> writable w4 out then (Inl (OSError out), w4)
               else if \<not> dump_ok w4 out
                 then (Inl (OSError out), w4\<lparr>files := (files w4)(out \<mapsto> Truncated)\<rparr>)
               else (Inr mse, w4\<lparr>files := (files w4)(out \<mapsto> Pickled p)\<rparr>))"
  using assms by (simp add: train_def Let_def case_prod_unfold pickle_dump_def)

lemma logger_keeps:
  "source (logger w r) = source w" "files (logger w r) = files w"
  "writable (logger w r) = writable w" "dump_ok (logger w r) = dump_ok w"
  by (simp_all add: logger_def)

lemma train_Inr:
  assumes "train lib w td vd out = (Inr r, w')"
  shows "\<exists>df_train df_val p.
           fst (read_dataframe lib w (base_url_format (year td) (month td))) = Inr df_train \<and>
           fst (read_dataframe lib (snd (read_dataframe lib w (base_url_format (year td) (month td))))
             (base_url_format (year vd) (month vd))) = Inr df_val \<and>
           fit_and_score lib df_train df_val = Inr (p, r) \<and>
           files w' out = Some (Pickled p)"
proof (cases "fst (read_dataframe lib w (base_url_format (year td) (month td)))")
  case (Inl e)
  then show ?thesis using assms train_load_train_fails[OF Inl, of vd out] by simp
next
  case train_ok: (Inr df_train)
  show ?thesis
  proof (cases "fst (read_dataframe lib (snd (read_dataframe lib w (base_url_format (year td) (month td))))
             (base_url_format (year vd) (month vd)))")
    case (Inl e)
    then show ?thesis using assms train_load_val_fails[OF train_ok Inl, of out] by simp
  next
    case val_ok: (Inr df_val)
    show ?thesis
    proof (cases "fit_and_score lib df_train df_val")
      case (Inl e)
      then show ?thesis using assms train_fit_fails[OF train_ok val_ok Inl, of out] by simp
    next
      case (Inr pm)
      obtain p mse where pm: "pm = (p, mse)" by (cases pm)
      from assms train_fitted[OF train_ok val_ok Inr[unfolded pm], of out]
      have "r = mse \<and> files w' out = Some (Pickled p)"
        by (auto simp: Let_def split: if_splits)
      with train_ok val_ok Inr pm show ?thesis by simp
    qed
  qed
qed

lemma train_early_failure_files:
  "fst (read_dataframe lib w (base_url_format (year td) (month td))) = Inl e \<Longrightarrow>
     files (snd (train lib w td vd out)) = files w"
  "fst (read_dataframe lib w (base_url_format (year td) (month td))) = Inr df_train \<Longrightarrow>
   fst (read_dataframe lib (snd (read_dataframe lib w (base_url_format (year td) (month td))))
           (base_url_format (year vd) (month vd))) = Inl e \<Longrightarrow>
     files (snd (train lib w td vd out)) = files w"
  "fst (read_dataframe lib w (base_url_format (year td) (month td))) = Inr df_train \<Longrightarrow>
   fst (read_dataframe lib (snd (read_dataframe lib w (base_url_format (year td) (month td))))
           (base_url_format (year vd) (month vd))) = Inr df_val \<Longrightarrow>
   fit_and_score lib df_train df_val = Inl e \<Longrightarrow>
     files (snd (train lib w td vd out)) = files w"
  by (simp_all add: train_load_train_fails train_load_val_fails train_fit_fails read_dataframe_world)

lemma train_Inl_files:
  assumes "fst (train lib w td vd out) = Inl e"
  shows "files (snd (train lib w td vd out)) = files w \<or>
         (\<exists>df_train df_val p r.
            fst (read_dataframe lib w (base_url_format (year td) (month td))) = Inr df_train \<and>
            fst (read_dataframe lib (snd (read_dataframe lib w (base_url_format (year td) (month td))))
              (base_url_format (year vd) (month vd))) = Inr df_val \<and>
            fit_and_score lib df_train df_val = Inr (p, r) \<and>
            writable w out \<and> \<not> dump_ok w out \<and> e = OSError out \<and>
            files (snd (train lib w td vd out)) = (files w)(out \<mapsto> Truncated))"
proof (cases "fst (read_dataframe lib w (base_url_format (year td) (month td)))")
  case (Inl e')
  then show ?thesis by (simp add: train_early_failure_files)
next
  case train_ok: (Inr df_train)
  show ?thesis
  proof (cases "fst (read_dataframe lib (snd (read_dataframe lib w (base_url_format (year td) (month td))))
             (base_url_format (year vd) (month vd)))")
    case (Inl e')
    then show ?thesis using train_early_failure_files(2)[OF train_ok Inl] by simp
  next
    case val_ok: (Inr df_val)
    show ?thesis
    proof (cases "fit_and_score lib df_train df_val")
      case (Inl e')
      then show ?thesis using train_early_failure_files(3)[OF train_ok val_ok Inl] by simp
    next
      case (Inr pm)
      obtain p mse where pm: "pm = (p, mse)" by (cases pm)
      note run = train_fitted[OF train_ok val_ok Inr[unfolded pm], of out]
      show ?thesis
      proof (cases "writable w out")
        case False
        then show ?thesis using run
          by (simp add: Let_def logger_keeps read_dataframe_world)
      next
        case True
        with assms run have d: "\<not> dump_ok w out"
          by (auto simp: Let_def logger_keeps read_dataframe_world split: if_splits)
        with True run have "e = OSError out"
          "files (snd (train lib w td vd out)) = (files w)(out \<mapsto> Truncated)"
          using assms by (simp_all add: Let_def logger_keeps read_dataframe_world)
        with train_ok val_ok Inr pm True d show ?thesis by auto
      qed
    qed
  qed
qed

lemma train_source_update:
  assumes t: "s (base_url_format (year td) (month td)) = source w (base_url_format (year td) (month td))"
    and v: "s (base_url_format (year vd) (month vd)) = source w (base_url_format (year vd) (month vd))"
  shows "train lib (w\<lparr>source := s\<rparr>) td vd out =
           (fst (train lib w td vd out), (snd (train lib w td vd out))\<lparr>source := s\<rparr>)"
proof -
  define tu where "tu = base_url_format (year td) (month td)"
  define vu where "vu = base_url_format (year vd) (month vd)"
  define w1 where "w1 = snd (read_dataframe lib w tu)"
  define w2 where "w2 = snd (read_dataframe lib w1 vu)"
  have r1: "read_dataframe lib (w\<lparr>source := s\<rparr>) tu =
      (fst (read_dataframe lib w tu), w1\<lparr>source := s\<rparr>)"
    unfolding w1_def using t by (intro read_dataframe_source_update) (simp add: tu_def)
  have "s vu = source w1 vu"
    using v by (simp add: w1_def vu_def read_dataframe_world)
  then have r2: "read_dataframe lib (w1\<lparr>source := s\<rparr>) vu =
      (fst (read_dataframe lib w1 vu), w2\<lparr>source := s\<rparr>)"
    unfolding w2_def by (rule read_dataframe_source_update)
  show ?thesis
  proof (cases "fst (read_dataframe lib w tu)")
    case (Inl e)
    then show ?thesis
      using train_load_train_fails[of lib w td e vd out]
        train_load_train_fails[of lib "w\<lparr>source := s\<rparr>" td e vd out] r1
      by (simp add: tu_def w1_def)
  next
    case train_ok: (Inr df_train)
    show ?thesis
    proof (cases "fst (read_dataframe lib w1 vu)")
      case (Inl e)
      then show ?thesis
        using train_load_val_fails[of lib w td df_train vd e out]
          train_load_val_fails[of lib "w\<lparr>source := s\<rparr>" td df_train vd e out] r1 r2 train_ok
        by (simp add: tu_def vu_def w1_def w2_def)
    next
      case val_ok: (Inr df_val)
      show ?thesis
      proof (cases "fit_and_score lib df_train df_val")
        case (Inl e)
        then show ?thesis
          using train_fit_fails[of lib w td df_train vd df_val e out]
            train_fit_fails[of lib "w\<lparr>source := s\<rparr>" td df_train vd df_val e out]
            r1 r2 train_ok val_ok
          by (simp add: tu_def vu_def w1_def w2_def)
      next
        case (Inr pm)
        obtain p mse where pm: "pm = (p, mse)" by (cases pm)
        show ?thesis
          using train_fitted[of lib w td df_train vd df_val p mse out]
            train_fitted[of lib "w\<lparr>source := s\<rparr>" td df_train vd df_val p mse out]
            r1 r2 train_ok val_ok Inr pm
          by (simp add: tu_def vu_def w1_def w2_def Let_def logger_def)
      qed
    qed
  qed
qed

lemma str_nat_digit: "n < 10 \<Longrightarrow> str_nat n = [digit_char n]"
  by (simp add: str_nat.simps)

lemma format_02d_two_digits:
  assumes "0 \<le> m" "m < 100"
  shows "format_02d m = two_digits (nat m)"
proof (cases "m < 10")
  case True
  then have "nat m < 10" "nat m div 10 = 0" "nat m mod 10 = nat m"
    using assms by auto
  then show ?thesis
    using assms
    by (simp add: format_02d_def two_digits_def str_nat_digit digit_char_def)
next
  case False
  then have "\<not> nat m < 10" "nat m div 10 < 10"
    using assms by auto
  then show ?thesis
    using assms
    by (simp add: format_02d_def two_digits_def str_nat.simps[of "nat m"] str_nat_digit)
qed

lemma base_url_period:
  "1 \<le> m \<Longrightarrow> m \<le> 12 \<Longrightarrow> base_url_format y m = period_url y m"
  by (simp add: base_url_format_def period_url_def format_02d_two_digits)

lemma train_first_log:
  "\<exists>rest. log (snd (train lib w td vd out)) =
     log w @ Info (''loading file: '' @ base_url_format (year td) (month td)) # rest"
proof -
  define tu where "tu = base_url_format (year td) (month td)"
  define vu where "vu = base_url_format (year vd) (month vd)"
  define w1 where "w1 = snd (read_dataframe lib w tu)"
  define w2 where "w2 = snd (read_dataframe lib w1 vu)"
  have l1: "\<exists>rest. log w1 = log w @ Info (''loading file: '' @ tu) # rest"
    unfolding w1_def
    by (cases "read_dataframe_try lib w tu")
      (simp_all add: read_dataframe_snd_Inl read_dataframe_snd_Inr logger_def)
  have "\<exists>rest. log w2 = log w1 @ rest"
    unfolding w2_def
    by (cases "read_dataframe_try lib w1 vu")
      (simp_all add: read_dataframe_snd_Inl read_dataframe_snd_Inr logger_def)
  with l1 have l2: "\<exists>rest. log w2 = log w @ Info (''loading file: '' @ tu) # rest"
    by auto
  show ?thesis
  proof (cases "fst (read_dataframe lib w tu)")
    case (Inl e)
    then show ?thesis
      using train_load_train_fails[of lib w td e vd out] l1 by (simp add: tu_def w1_def)
  next
    case train_ok: (Inr df_train)
    show ?thesis
    proof (cases "fst (read_dataframe lib w1 vu)")
      case (Inl e)
      then show ?thesis
        using train_load_val_fails[of lib w td df_train vd e out] train_ok l2
        by (simp add: tu_def vu_def w1_def w2_def)
    next
      case val_ok: (Inr df_val)
      show ?thesis
      proof (cases "fit_and_score lib df_train df_val")
        case (Inl e)
        then show ?thesis
          using train_fit_fails[of lib w td df_train vd df_val e out] train_ok val_ok l2
          by (simp add: tu_def vu_def w1_def w2_def)
      next
        case (Inr pm)
        obtain p mse where pm: "pm = (p, mse)" by (cases pm)
        show ?thesis
          using train_fitted[of lib w td df_train vd df_val p mse out] train_ok val_ok Inr pm l2
          by (auto simp: tu_def vu_def w1_def w2_def Let_def logger_def)
      qed
    qed
  qed
qed

lemma train_logs_validation_location:
  assumes "fst (read_dataframe lib w (base_url_format (year td) (month td))) = Inr df_train"
  shows "\<exists>rest. log (snd (train lib w td vd out)) =
     log w @ [Info (''loading file: '' @ base_url_format (year td) (month td)),
              Info (base_url_format (year td) (month td) @ '' had ''
                      @ str_nat (length (index df_train)) @ '' rows''),
              Info (''loading file: '' @ base_url_format (year vd) (month vd))] @ rest"
proof -
  define tu where "tu = base_url_format (year td) (month td)"
  define vu where "vu = base_url_format (year vd) (month vd)"
  define w1 where "w1 = snd (read_dataframe lib w tu)"
  define w2 where "w2 = snd (read_dataframe lib w1 vu)"
  have train_ok: "fst (read_dataframe lib w tu) = Inr df_train"
    using assms by (simp add: tu_def)
  then have "read_dataframe_try lib w tu = Inr df_train"
    by (simp add: read_dataframe_fst)
  then have l1: "log w1 = log w @ [Info (''loading file: '' @ tu),
      Info (tu @ '' had '' @ str_nat (length (index df_train)) @ '' rows'')]"
    by (simp add: w1_def read_dataframe_snd_Inr logger_def)
  have "\<exists>rest. log w2 = log w1 @ Info (''loading file: '' @ vu) # rest"
    unfolding w2_def
    by (cases "read_dataframe_try lib w1 vu")
      (simp_all add: read_dataframe_snd_Inl read_dataframe_snd_Inr logger_def)
  then obtain rest where l2: "log w2 = log w @ [Info (''loading file: '' @ tu),
      Info (tu @ '' had '' @ str_nat (length (index df_train)) @ '' rows''),
      Info (''loading file: '' @ vu)] @ rest"
    using l1 by auto
  have "\<exists>more. log (snd (train lib w td vd out)) = log w2 @ more"
  proof (cases "fst (read_dataframe lib w1 vu)")
    case (Inl e)
    then show ?thesis
      using train_load_val_fails[of lib w td df_train vd e out] train_ok
      by (simp add: tu_def vu_def w1_def w2_def)
  next
    case val_ok: (Inr df_val)
    show ?thesis
    proof (cases "fit_and_score lib df_train df_val")
      case (Inl e)
      then show ?thesis
        using train_fit_fails[of lib w td df_train vd df_val e out] train_ok val_ok
        by (simp add: tu_def vu_def w1_def w2_def)
    next
      case (Inr pm)
      obtain p mse where pm: "pm = (p, mse)" by (cases pm)
      show ?thesis
        using train_fitted[of lib w td df_train vd df_val p mse out] train_ok val_ok Inr pm
        by (auto simp: tu_def vu_def w1_def w2_def Let_def logger_def)
    qed
  qed
  with l2 show ?thesis
    unfolding tu_def vu_def by auto
qed

lemma train_reads_training_location:
  assumes "source w (base_url_format (year td) (month td)) = Inl e"
  shows "fst (train lib w td vd out) = Inl e"
proof -
  have "fst (read_dataframe lib w (base_url_format (year td) (month td))) = Inl e"
    using assms by (simp add: read_dataframe_fst read_dataframe_try_def and_then_def)
  then show ?thesis by (simp add: train_load_train_fails)
qed

lemma train_reads_validation_location:
  assumes "fst (read_dataframe lib w (base_url_format (year td) (month td))) = Inr df_train"
    and "source w (base_url_format (year vd) (month vd)) = Inl e"
  shows "fst (train lib w td vd out) = Inl e"
proof -
  have "source (snd (read_dataframe lib w (base_url_format (year td) (month td))))
          (base_url_format (year vd) (month vd)) = Inl e"
    using assms(2) by (simp add: read_dataframe_world)
  then have "fst (read_dataframe lib (snd (read_dataframe lib w (base_url_format (year td) (month td))))
          (base_url_format (year vd) (month vd))) = Inl e"
    by (simp add: read_dataframe_fst read_dataframe_try_def and_then_def)
  then show ?thesis
    using train_load_val_fails[OF assms(1), of vd e out] by simp
qed

lemma try_Inr_source: "read_dataframe_try lib w f = Inr out \<Longrightarrow> \<exists>src. source w f = Inr src"
  using try_Inr[of lib w f out] by blast

lemma train_Inr_sources:
  assumes "train lib w td vd out = (Inr r, w')"
  shows "\<exists>src_train src_val df_train df_val p.
     source w (base_url_format (year td) (month td)) = Inr src_train \<and>
     source w (base_url_format (year vd) (month vd)) = Inr src_val \<and>
     fst (read_dataframe lib w (base_url_format (year td) (month td))) = Inr df_train \<and>
     fst (read_dataframe lib (snd (read_dataframe lib w (base_url_format (year td) (month td))))
       (base_url_format (year vd) (month vd))) = Inr df_val \<and>
     fit_and_score lib df_train df_val = Inr (p, r) \<and>
     files w' out = Some (Pickled p)"
proof -
  from train_Inr[OF assms] obtain df_train df_val p where
    t: "fst (read_dataframe lib w (base_url_format (year td) (month td))) = Inr df_train"
    and v: "fst (read_dataframe lib (snd (read_dataframe lib w (base_url_format (year td) (month td))))
       (base_url_format (year vd) (month vd))) = Inr df_val"
    and rest: "fit_and_score lib df_train df_val = Inr (p, r)" "files w' out = Some (Pickled p)"
    by blast
  have "read_dataframe_try lib w (base_url_format (year td) (month td)) = Inr df_train"
    using t by (simp add: read_dataframe_fst)
  from try_Inr_source[OF this] obtain src_train where
    st: "source w (base_url_format (year td) (month td)) = Inr src_train"
    by blast
  have "read_dataframe_try lib (snd (read_dataframe lib w (base_url_format (year td) (month td))))
      (base_url_format (year vd) (month vd)) = Inr df_val"
    using v by (simp add: read_dataframe_fst)
  from try_Inr_source[OF this] obtain src_val where
    "source (snd (read_dataframe lib w (base_url_format (year td) (month td))))
      (base_url_format (year vd) (month vd)) = Inr src_val"
    by blast
  then have sv: "source w (base_url_format (year vd) (month vd)) = Inr src_val"
    by (simp add: read_dataframe_world)
  from st sv t v rest show ?thesis by blast
qed

section \<open>The fitted pipeline and its error\<close>

lemma fit_and_score_Inr:
  assumes "fit_and_score lib df_train df_val = Inr (p, r)"
  shows "\<exists>x_train x_val y_train y_val y_pred.
     getitem_cols df_train [''PULocationID'', ''DOLocationID'', ''trip_distance''] = Inr x_train \<and>
     getitem_cols df_val [''PULocationID'', ''DOLocationID'', ''trip_distance''] = Inr x_val \<and>
     getitem_col df_train ''duration'' = Inr y_train \<and>
     getitem_col df_val ''duration'' = Inr y_val \<and>
     pipeline_fit lib (to_dict_records x_train) y_train = Inr p \<and>
     pipeline_predict p (to_dict_records x_val) = Inr y_pred \<and>
     mean_squared_error y_val y_pred = Inr r"
  using assms by (auto simp: fit_and_score_def Let_def and_then_Inr)

lemma those_Some: "those xs = Some ys \<Longrightarrow> xs = map Some ys"
  by (induction xs arbitrary: ys) (auto split: option.splits)

lemma check_1d_Inr: "check_1d ys = Inr yt \<Longrightarrow> ys = map Some yt \<and> yt \<noteq> []"
  by (auto simp: check_1d_def dest: those_Some split: option.splits if_splits)

lemma numeric_values_len: "numeric_values y = Inr ys \<Longrightarrow> length ys = col_len y"
  by (cases y) auto

lemma mean_squared_error_Inr:
  assumes "mean_squared_error y y_pred = Inr r"
  shows "\<exists>yt. numeric_values y = Inr (map Some yt) \<and> length yt = length y_pred \<and> yt \<noteq> [] \<and>
           r = rmse yt y_pred"
proof -
  from assms obtain ys yt where len: "col_len y = length y_pred"
    and ys: "numeric_values y = Inr ys" and yt: "check_1d ys = Inr yt" and r: "r = rmse yt y_pred"
    by (auto simp: mean_squared_error_def and_then_Inr split: if_splits)
  from check_1d_Inr[OF yt] have "ys = map Some yt" "yt \<noteq> []" by auto
  moreover from numeric_values_len[OF ys] len \<open>ys = map Some yt\<close> have "length yt = length y_pred"
    by simp
  ultimately show ?thesis using ys r by auto
qed

lemma sum_list_map2_nth:
  assumes "length xs = length ys"
  shows "sum_list (map2 f xs ys) = (\<Sum>i<length xs. f (xs ! i) (ys ! i))"
proof -
  have "sum_list (map2 f xs ys) = (\<Sum>i = 0..<length (map2 f xs ys). map2 f xs ys ! i)"
    by (rule sum_list_sum_nth)
  also have "\<dots> = (\<Sum>i = 0..<length xs. f (xs ! i) (ys ! i))"
    using assms by (intro sum.cong) auto
  finally show ?thesis by (simp add: lessThan_atLeast0)
qed

lemma rmse_is_root_mean_squared_error:
  assumes "length actual = length predicted"
  shows "rmse actual predicted = root_mean_squared_error actual predicted"
proof -
  have "sum_list (map2 (\<lambda>a b. (a - b)\<^sup>2) actual predicted) =
        (\<Sum>i<length actual. (predicted ! i - actual ! i)\<^sup>2)"
    using sum_list_map2_nth[OF assms, of "\<lambda>a b. (a - b)\<^sup>2"]
    by (simp add: power2_commute)
  then show ?thesis
    by (simp add: rmse_def root_mean_squared_error_def)
qed

lemma root_mean_squared_error_square:
  "(root_mean_squared_error actual predicted)\<^sup>2 =
     of_rat ((\<Sum>i<length actual. (predicted ! i - actual ! i)\<^sup>2) / of_nat (length actual))"
proof -
  have "0 \<le> (\<Sum>i<length actual. (predicted ! i - actual ! i)\<^sup>2) / (of_nat (length actual) :: rat)"
    by (intro divide_nonneg_nonneg sum_nonneg) auto
  then have "(0::real) \<le> of_rat ((\<Sum>i<length actual. (predicted ! i - actual ! i)\<^sup>2) / of_nat (length actual))"
    by (simp only: zero_le_of_rat_iff)
  then show ?thesis
    unfolding root_mean_squared_error_def by (rule real_sqrt_pow2)
qed

lemma dv_fit_Inr:
  "dv_fit dicts = Inr names \<Longrightarrow>
     names = sort (remdups (List.map_filter feature_name (concat dicts)))"
  by (auto simp: dv_fit_def and_then_Inr)

lemma dv_transform_Inr:
  "dv_transform names dicts = Inr X \<Longrightarrow> X = map (dv_row names) dicts"
  by (auto simp: dv_transform_def and_then_Inr)

lemma pipeline_fit_Inr:
  assumes "pipeline_fit lib dicts y = Inr p"
  shows "feature_names p = sort (remdups (List.map_filter feature_name (concat dicts)))"
  using assms by (auto simp: pipeline_fit_def and_then_Inr dest: dv_fit_Inr)

lemma pipeline_predict_Inr:
  assumes "pipeline_predict p dicts = Inr y_pred"
  shows "dv_transform (feature_names p) dicts = Inr (map (dv_row (feature_names p)) dicts) \<and>
         lr_predict (regressor p) (map (dv_row (feature_names p)) dicts) = Inr y_pred"
  using assms by (auto simp: pipeline_predict_def and_then_Inr dest: dv_transform_Inr)

lemma set_map_filter: "set (List.map_filter f xs) = {y. \<exists>x\<in>set xs. f x = Some y}"
  by (induction xs) (auto simp: List.map_filter_simps split: option.splits)

lemma set_fitted_names:
  "set (sort (remdups (List.map_filter feature_name (concat dicts)))) =
     {n. \<exists>d\<in>set dicts. \<exists>item\<in>set d. feature_name item = Some n}"
  by (auto simp: set_map_filter)

lemma length_dv_row: "length (dv_row names d) = length names"
  by (simp add: dv_row_def)

lemma dv_row_unseen:
  assumes "feature_name item \<notin> Some ` set names"
  shows "dv_row names (item # d) = dv_row names d"
    and "dv_row names [item] = replicate (length names) (Some 0)"
proof -
  have ne: "feature_name item \<noteq> Some n" if "n \<in> set names" for n
    using assms that by auto
  show "dv_row names (item # d) = dv_row names d"
    unfolding dv_row_def by (rule map_cong) (simp_all add: ne)
  have "dv_row names [item] = map (\<lambda>n. Some 0) names"
    unfolding dv_row_def by (rule map_cong) (simp_all add: ne)
  then show "dv_row names [item] = replicate (length names) (Some 0)"
    by (simp add: map_replicate_const)
qed

lemma dv_row_nth:
  "j < length names \<Longrightarrow>
     dv_row names d ! j =
       nan_sum (map (feature_value \<circ> snd) (filter (\<lambda>item. feature_name item = Some (names ! j)) d))"
  by (simp add: dv_row_def)

lemma nan_sum_single: "nan_sum [x] = x"
  by (cases x) simp_all

lemma those_map_those:
  "those (map those X) = Some Xf \<Longrightarrow> X = map (map Some) Xf"
proof (induction X arbitrary: Xf)
  case Nil
  then show ?case by simp
next
  case (Cons x X)
  then show ?case
    by (auto split: option.splits dest: those_Some)
qed

lemma check_array_Inr: "check_array X = Inr Xf \<Longrightarrow> X = map (map Some) Xf \<and> Xf \<noteq> []"
  by (auto simp: check_array_def dest: those_map_those split: option.splits if_splits)

lemma lr_predict_Inr:
  assumes "lr_predict m X = Inr y_pred"
  shows "\<exists>Xf. X = map (map Some) Xf \<and> Xf \<noteq> [] \<and>
           y_pred = map (\<lambda>x. dot (coef m) x + intercept m) Xf"
  using assms by (auto simp: lr_predict_def and_then_Inr dest: check_array_Inr)

lemma eval_url_jan: "base_url_format (year date_jan) (month date_jan) = url0"
  by code_simp

lemma eval_url_feb: "base_url_format (year date_feb) (month date_feb) = url_feb"
  by code_simp

lemma eval_try_feb: "read_dataframe_try lib0 world0 url_feb = Inr frame_feb1"
  by code_simp

lemma eval_target_feb: "getitem_col frame_feb1 ''duration'' = Inr (FloatCol [Some 2, Some 5])"
  by code_simp

lemma eval_predict0:
  "and_then (getitem_cols frame_feb1 features0) (\<lambda>x.
     pipeline_predict pipeline0 (to_dict_records x)) = Inr [23 / 4, 23 / 4]"
  by code_simp

lemma eval_fit_and_score0:
  "fit_and_score lib0 frame1 frame_feb1 = Inr (pipeline0, rmse [2, 5] [23 / 4, 23 / 4])"
proof -
  have a: "getitem_col frame1 ''duration'' = Inr (FloatCol [Some (3 / 2), Some 10])"
    by code_simp
  have c: "and_then (getitem_cols frame1 features0) (\<lambda>x.
             pipeline_fit lib0 (to_dict_records x) (FloatCol [Some (3 / 2), Some 10])) = Inr pipeline0"
    by code_simp
  have e: "mean_squared_error (FloatCol [Some 2, Some 5]) [23 / 4, 23 / 4] =
             Inr (rmse [2, 5] [23 / 4, 23 / 4])"
    by (simp add: mean_squared_error_def and_then_def check_1d_def)
  from c obtain x where x: "getitem_cols frame1 features0 = Inr x"
    "pipeline_fit lib0 (to_dict_records x) (FloatCol [Some (3 / 2), Some 10]) = Inr pipeline0"
    by (auto simp: and_then_Inr)
  from eval_predict0 obtain x' where x': "getitem_cols frame_feb1 features0 = Inr x'"
    "pipeline_predict pipeline0 (to_dict_records x') = Inr [23 / 4, 23 / 4]"
    by (auto simp: and_then_Inr)
  show ?thesis
    using a eval_target_feb e x x'
    by (simp add: fit_and_score_def Let_def and_then_def features0_def)
qed

lemma eval_load_jan:
  "fst (read_dataframe lib0 world0 (base_url_format (year date_jan) (month date_jan))) = Inr frame1"
  by (simp add: eval_url_jan read_dataframe_fst eval_try0)

lemma eval_load_feb:
  "fst (read_dataframe lib0
     (snd (read_dataframe lib0 world0 (base_url_format (year date_jan) (month date_jan))))
     (base_url_format (year date_feb) (month date_feb))) = Inr frame_feb1"
proof -
  have "read_dataframe_try lib0 (snd (read_dataframe lib0 world0 url0)) url_feb =
        read_dataframe_try lib0 world0 url_feb"
    by (rule try_cong) (simp add: read_dataframe_world)
  then show ?thesis
    by (simp add: eval_url_jan eval_url_feb read_dataframe_fst eval_try_feb)
qed

lemma eval_train0_result:
  "fst (train lib0 world0 date_jan date_feb ''model.bin'') = Inr (rmse [2, 5] [23 / 4, 23 / 4])"
  "files (snd (train lib0 world0 date_jan date_feb ''model.bin'')) ''model.bin'' =
     Some (Pickled pipeline0)"
proof -
  have wr: "writable world0 = (\<lambda>p. True)" "dump_ok world0 ''model.bin''"
    by (simp_all add: world0_def)
  note run = train_fitted[OF eval_load_jan eval_load_feb eval_fit_and_score0, of "''model.bin''"]
  show "fst (train lib0 world0 date_jan date_feb ''model.bin'') = Inr (rmse [2, 5] [23 / 4, 23 / 4])"
    using run by (simp add: Let_def logger_keeps read_dataframe_world wr)
  show "files (snd (train lib0 world0 date_jan date_feb ''model.bin'')) ''model.bin'' =
     Some (Pickled pipeline0)"
    using run by (simp add: Let_def logger_keeps read_dataframe_world wr)
qed

lemma eval_train0:
  "train lib0 world0 date_jan date_feb ''model.bin'' =
     (Inr (rmse [2, 5] [23 / 4, 23 / 4]), snd (train lib0 world0 date_jan date_feb ''model.bin''))"
  using eval_train0_result(1) by (metis prod.collapse)

lemma eval_train_full:
  "fst (train lib0 world0 date_jan date_feb ''/full/model.bin'') = Inl (OSError ''/full/model.bin'')"
  "files (snd (train lib0 world0 date_jan date_feb ''/full/model.bin'')) ''/full/model.bin'' =
     Some Truncated"
proof -
  have wr: "writable world0 = (\<lambda>p. True)" "\<not> dump_ok world0 ''/full/model.bin''"
    by (simp_all add: world0_def)
  note run = train_fitted[OF eval_load_jan eval_load_feb eval_fit_and_score0, of "''/full/model.bin''"]
  show "fst (train lib0 world0 date_jan date_feb ''/full/model.bin'') = Inl (OSError ''/full/model.bin'')"
    using run by (simp add: Let_def logger_keeps read_dataframe_world wr)
  show "files (snd (train lib0 world0 date_jan date_feb ''/full/model.bin'')) ''/full/model.bin'' =
     Some Truncated"
    using run by (simp add: Let_def logger_keeps read_dataframe_world wr)
qed

section \<open>Claims about the Trainer\<close>

text \<open>
  C7. \<open>train\<close> resolves each of its two periods to the location given by the fixed template
  with the period's year and its month as two zero-padded digits, and these are the
  locations it loads. The training location is loaded first: the first log line names it,
  and when it cannot be read \<open>train\<close> fails with that failure. When the training table has
  been loaded, the validation location is loaded next: the third log line names it, and
  when it cannot be read \<open>train\<close> fails with that failure. A successful run has read both
  locations, and has fitted on the table loaded from the first and scored on the table
  loaded from the second. Nothing else of the sources matters: replacing them at every
  other location changes neither the result nor what is written and logged.
\<close>

theorem C7_period_locations:
  assumes "1 \<le> month train_date" "month train_date \<le> 12"
    and "1 \<le> month val_date" "month val_date \<le> 12"
  shows "base_url_format (year train_date) (month train_date) =
           period_url (year train_date) (month train_date) \<and>
         base_url_format (year val_date) (month val_date) =
           period_url (year val_date) (month val_date) \<and>
         (\<forall>s. s (period_url (year train_date) (month train_date)) =
                 source w (period_url (year train_date) (month train_date)) \<and>
               s (period_url (year val_date) (month val_date)) =
                 source w (period_url (year val_date) (month val_date)) \<longrightarrow>
               train lib (w\<lparr>source := s\<rparr>) train_date val_date out_path =
                 (fst (train lib w train_date val_date out_path),
                  (snd (train lib w train_date val_date out_path))\<lparr>source := s\<rparr>)) \<and>
         (\<exists>rest. log (snd (train lib w train_date val_date out_path)) =
            log w @ Info (''loading file: '' @ period_url (year train_date) (month train_date)) # rest) \<and>
         (\<forall>e. source w (period_url (year train_date) (month train_date)) = Inl e \<longrightarrow>
            fst (train lib w train_date val_date out_path) = Inl e) \<and>
         (\<forall>df_train.
            fst (read_dataframe lib w (period_url (year train_date) (month train_date))) = Inr df_train \<longrightarrow>
            (\<exists>rest. log (snd (train lib w train_date val_date out_path)) =
               log w @ [Info (''loading file: '' @ period_url (year train_date) (month train_date)),
                        Info (period_url (year train_date) (month train_date) @ '' had ''
                                @ str_nat (length (index df_train)) @ '' rows''),
                        Info (''loading file: '' @ period_url (year val_date) (month val_date))] @ rest) \<and>
            (\<forall>e. source w (period_url (year val_date) (month val_date)) = Inl e \<longrightarrow>
               fst (train lib w train_date val_date out_path) = Inl e)) \<and>
         (\<forall>r w'. train lib w train_date val_date out_path = (Inr r, w') \<longrightarrow>
            (\<exists>src_train src_val df_train df_val p.
               source w (period_url (year train_date) (month train_date)) = Inr src_train \<and>
               source w (period_url (year val_date) (month val_date)) = Inr src_val \<and>
               fst (read_dataframe lib w (period_url (year train_date) (month train_date))) = Inr df_train \<and>
               fst (read_dataframe lib
                     (snd (read_dataframe lib w (period_url (year train_date) (month train_date))))
                     (period_url (year val_date) (month val_date))) = Inr df_val \<and>
               fit_and_score lib df_train df_val = Inr (p, r) \<and>
               files w' out_path = Some (Pickled p)))"
proof -
  have t: "base_url_format (year train_date) (month train_date) =
           period_url (year train_date) (month train_date)"
    using assms(1,2) by (rule base_url_period)
  have v: "base_url_format (year val_date) (month val_date) =
           period_url (year val_date) (month val_date)"
    using assms(3,4) by (rule base_url_period)
  have c3: "\<forall>s. s (period_url (year train_date) (month train_date)) =
                 source w (period_url (year train_date) (month train_date)) \<and>
               s (period_url (year val_date) (month val_date)) =
                 source w (period_url (year val_date) (month val_date)) \<longrightarrow>
               train lib (w\<lparr>source := s\<rparr>) train_date val_date out_path =
                 (fst (train lib w train_date val_date out_path),
                  (snd (train lib w train_date val_date out_path))\<lparr>source := s\<rparr>)"
    using train_source_update[of _ train_date w val_date lib out_path]
    unfolding t v by blast
  have c4: "\<exists>rest. log (snd (train lib w train_date val_date out_path)) =
            log w @ Info (''loading file: '' @ period_url (year train_date) (month train_date)) # rest"
    using train_first_log[of lib w train_date val_date out_path] unfolding t .
  have c5: "\<forall>e. source w (period_url (year train_date) (month train_date)) = Inl e \<longrightarrow>
            fst (train lib w train_date val_date out_path) = Inl e"
    using train_reads_training_location[of w train_date _ lib val_date out_path]
    unfolding t by blast
  have c6: "\<forall>df_train.
            fst (read_dataframe lib w (period_url (year train_date) (month train_date))) = Inr df_train \<longrightarrow>
            (\<exists>rest. log (snd (train lib w train_date val_date out_path)) =
               log w @ [Info (''loading file: '' @ period_url (year train_date) (month train_date)),
                        Info (period_url (year train_date) (month train_date) @ '' had ''
                                @ str_nat (length (index df_train)) @ '' rows''),
                        Info (''loading file: '' @ period_url (year val_date) (month val_date))] @ rest) \<and>
            (\<forall>e. source w (period_url (year val_date) (month val_date)) = Inl e \<longrightarrow>
               fst (train lib w train_date val_date out_path) = Inl e)"
    using train_logs_validation_location[of lib w train_date _ val_date out_path]
      train_reads_validation_location[of lib w train_date _ val_date _ out_path]
    unfolding t v by blast
  have c7: "\<forall>r w'. train lib w train_date val_date out_path = (Inr r, w') \<longrightarrow>
            (\<exists>src_train src_val df_train df_val p.
               source w (period_url (year train_date) (month train_date)) = Inr src_train \<and>
               source w (period_url (year val_date) (month val_date)) = Inr src_val \<and>
               fst (read_dataframe lib w (period_url (year train_date) (month train_date))) = Inr df_train \<and>
               fst (read_dataframe lib
                     (snd (read_dataframe lib w (period_url (year train_date) (month train_date))))
                     (period_url (year val_date) (month val_date))) = Inr df_val \<and>
               fit_and_score lib df_train df_val = Inr (p, r) \<and>
               files w' out_path = Some (Pickled p))"
    using train_Inr_sources[of lib w train_date val_date out_path]
    unfolding t v by blast
  from t v c3 c4 c5 c6 c7 show ?thesis
    by (intro conjI)
qed

theorem C7_period_locations_witness:
  "period_url (year date_jan) (month date_jan) =
     ''https://d37ci6vzurychx.cloudfront.net/trip-data/green_tripdata_2022-01.parquet'' \<and>
   period_url (year date_feb) (month date_feb) =
     ''https://d37ci6vzurychx.cloudfront.net/trip-data/green_tripdata_2022-02.parquet'' \<and>
   (\<exists>rest. log (snd (train lib0 world0 date_jan date_feb ''model.bin'')) =
      [Info ''loading file: https://d37ci6vzurychx.cloudfront.net/trip-data/green_tripdata_2022-01.parquet'',
       Info ''https://d37ci6vzurychx.cloudfront.net/trip-data/green_tripdata_2022-01.parquet had 2 rows'',
       Info ''loading file: https://d37ci6vzurychx.cloudfront.net/trip-data/green_tripdata_2022-02.parquet'']
      @ rest) \<and>
   fst (train lib0 world0 date_jan date_mar ''model.bin'') =
     Inl (ReadError ''https://d37ci6vzurychx.cloudfront.net/trip-data/green_tripdata_2022-03.parquet'')"
proof -
  have m: "(1::int) \<le> month date_jan" "month date_jan \<le> 12"
    "(1::int) \<le> month date_feb" "month date_feb \<le> 12"
    "(1::int) \<le> month date_mar" "month date_mar \<le> 12"
    by (simp_all add: date_jan_def date_feb_def date_mar_def)
  have jan: "period_url (year date_jan) (month date_jan) =
     ''https://d37ci6vzurychx.cloudfront.net/trip-data/green_tripdata_2022-01.parquet''"
    by code_simp
  have feb: "period_url (year date_feb) (month date_feb) =
     ''https://d37ci6vzurychx.cloudfront.net/trip-data/green_tripdata_2022-02.parquet''"
    by code_simp
  have mar: "period_url (year date_mar) (month date_mar) =
     ''https://d37ci6vzurychx.cloudfront.net/trip-data/green_tripdata_2022-03.parquet''"
    by code_simp
  have load: "fst (read_dataframe lib0 world0 (period_url (year date_jan) (month date_jan))) = Inr frame1"
    using eval_load_jan base_url_period[OF m(1,2), of "year date_jan"] by simp
  have rows: "str_nat (length (index frame1)) = ''2''"
    by code_simp
  have unreachable: "source world0 (period_url (year date_mar) (month date_mar)) =
     Inl (ReadError ''https://d37ci6vzurychx.cloudfront.net/trip-data/green_tripdata_2022-03.parquet'')"
    unfolding mar by (simp add: world0_def url0_def url_feb_def)
  have empty: "log world0 = []"
    by (simp add: world0_def)
  from C7_period_locations[OF m(1,2,3,4), of world0 lib0 "''model.bin''"] load
  have "\<exists>rest. log (snd (train lib0 world0 date_jan date_feb ''model.bin'')) =
      log world0 @ [Info (''loading file: '' @ period_url (year date_jan) (month date_jan)),
        Info (period_url (year date_jan) (month date_jan) @ '' had ''
                @ str_nat (length (index frame1)) @ '' rows''),
        Info (''loading file: '' @ period_url (year date_feb) (month date_feb))] @ rest"
    by blast
  then have a: "\<exists>rest. log (snd (train lib0 world0 date_jan date_feb ''model.bin'')) =
      [Info ''loading file: https://d37ci6vzurychx.cloudfront.net/trip-data/green_tripdata_2022-01.parquet'',
       Info ''https://d37ci6vzurychx.cloudfront.net/trip-data/green_tripdata_2022-01.parquet had 2 rows'',
       Info ''loading file: https://d37ci6vzurychx.cloudfront.net/trip-data/green_tripdata_2022-02.parquet'']
      @ rest"
    by (simp add: empty jan feb rows)
  from C7_period_locations[OF m(1,2,5,6), of world0 lib0 "''model.bin''"] load unreachable
  have b: "fst (train lib0 world0 date_jan date_mar ''model.bin'') =
     Inl (ReadError ''https://d37ci6vzurychx.cloudfront.net/trip-data/green_tripdata_2022-03.parquet'')"
    by blast
  from jan feb a b show ?thesis by (intro conjI)
qed

text \<open>
  C10. \<open>train\<close> uses its two dates only through their year and month: dates that agree on
  both give the same result and the same final world (log, files), whatever their days.
\<close>

theorem C10_day_ignored:
  assumes "year train_date = year train_date'" "month train_date = month train_date'"
    and "year val_date = year val_date'" "month val_date = month val_date'"
  shows "train lib w train_date val_date out_path = train lib w train_date' val_date' out_path"
  using assms by (simp add: train_def)

theorem C10_day_ignored_witness:
  "day date_jan \<noteq> day date_jan15 \<and>
   train lib0 world0 date_jan date_feb ''model.bin'' =
   train lib0 world0 date_jan15 date_feb ''model.bin''"
proof -
  have "year date_jan = year date_jan15" "month date_jan = month date_jan15"
    "day date_jan \<noteq> day date_jan15"
    by (simp_all add: date_jan_def date_jan15_def)
  then show ?thesis
    using C10_day_ignored[of date_jan date_jan15 date_feb date_feb lib0 world0 "''model.bin''"]
    by simp
qed

text \<open>
  C4. When the Loader fails on the training location, or succeeds there and fails on the
  validation location, \<open>train\<close> fails with that same failure and the files are as they were
  before the call, so an output path that did not exist still does not exist. The same
  holds when both tables load and a later step before the write fails. The only failing
  run that changes the files is one where every step before the write succeeded, the output
  path was opened, and the dump itself failed: it leaves the truncated file at the output
  path.
\<close>

theorem C4_failure_writes_nothing:
  "(fst (read_dataframe lib w (base_url_format (year train_date) (month train_date))) = Inl e \<longrightarrow>
      fst (train lib w train_date val_date out_path) = Inl e \<and>
      files (snd (train lib w train_date val_date out_path)) = files w \<and>
      (files w out_path = None \<longrightarrow>
         files (snd (train lib w train_date val_date out_path)) out_path = None)) \<and>
   (fst (read_dataframe lib w (base_url_format (year train_date) (month train_date))) = Inr df \<and>
    fst (read_dataframe lib
          (snd (read_dataframe lib w (base_url_format (year train_date) (month train_date))))
          (base_url_format (year val_date) (month val_date))) = Inl e \<longrightarrow>
      fst (train lib w train_date val_date out_path) = Inl e \<and>
      files (snd (train lib w train_date val_date out_path)) = files w \<and>
      (files w out_path = None \<longrightarrow>
         files (snd (train lib w train_date val_date out_path)) out_path = None)) \<and>
   (fst (read_dataframe lib w (base_url_format (year train_date) (month train_date))) = Inr df \<and>
    fst (read_dataframe lib
          (snd (read_dataframe lib w (base_url_format (year train_date) (month train_date))))
          (base_url_format (year val_date) (month val_date))) = Inr df' \<and>
    fit_and_score lib df df' = Inl e \<longrightarrow>
      fst (train lib w train_date val_date out_path) = Inl e \<and>
      files (snd (train lib w train_date val_date out_path)) = files w) \<and>
   (fst (train lib w train_date val_date out_path) = Inl e \<longrightarrow>
      files (snd (train lib w train_date val_date out_path)) = files w \<or>
      (\<exists>df_train df_val p r.
         fst (read_dataframe lib w (base_url_format (year train_date) (month train_date))) = Inr df_train \<and>
         fst (read_dataframe lib
               (snd (read_dataframe lib w (base_url_format (year train_date) (month train_date))))
               (base_url_format (year val_date) (month val_date))) = Inr df_val \<and>
         fit_and_score lib df_train df_val = Inr (p, r) \<and>
         writable w out_path \<and> \<not> dump_ok w out_path \<and> e = OSError out_path \<and>
         files (snd (train lib w train_date val_date out_path)) = (files w)(out_path \<mapsto> Truncated)))"
proof (intro conjI impI)
  assume a: "fst (read_dataframe lib w (base_url_format (year train_date) (month train_date))) = Inl e"
  then show "fst (train lib w train_date val_date out_path) = Inl e"
    by (simp add: train_load_train_fails)
  show f: "files (snd (train lib w train_date val_date out_path)) = files w"
    using a by (rule train_early_failure_files(1))
  assume "files w out_path = None"
  then show "files (snd (train lib w train_date val_date out_path)) out_path = None"
    using f by simp
next
  assume a: "fst (read_dataframe lib w (base_url_format (year train_date) (month train_date))) = Inr df \<and>
    fst (read_dataframe lib
          (snd (read_dataframe lib w (base_url_format (year train_date) (month train_date))))
          (base_url_format (year val_date) (month val_date))) = Inl e"
  then show "fst (train lib w train_date val_date out_path) = Inl e"
    using train_load_val_fails[of lib w train_date df val_date e out_path] by simp
  show f: "files (snd (train lib w train_date val_date out_path)) = files w"
    using a train_early_failure_files(2)[of lib w train_date df val_date e out_path] by simp
  assume "files w out_path = None"
  then show "files (snd (train lib w train_date val_date out_path)) out_path = None"
    using f by simp
next
  assume a: "fst (read_dataframe lib w (base_url_format (year train_date) (month train_date))) = Inr df \<and>
    fst (read_dataframe lib
          (snd (read_dataframe lib w (base_url_format (year train_date) (month train_date))))
          (base_url_format (year val_date) (month val_date))) = Inr df' \<and>
    fit_and_score lib df df' = Inl e"
  then show "fst (train lib w train_date val_date out_path) = Inl e"
    using train_fit_fails[of lib w train_date df val_date df' e out_path] by simp
  show "files (snd (train lib w train_date val_date out_path)) = files w"
    using a train_early_failure_files(3)[of lib w train_date df val_date df' e out_path] by simp
next
  assume "fst (train lib w train_date val_date out_path) = Inl e"
  then show "files (snd (train lib w train_date val_date out_path)) = files w \<or>
      (\<exists>df_train df_val p r.
         fst (read_dataframe lib w (base_url_format (year train_date) (month train_date))) = Inr df_train \<and>
         fst (read_dataframe lib
               (snd (read_dataframe lib w (base_url_format (year train_date) (month train_date))))
               (base_url_format (year val_date) (month val_date))) = Inr df_val \<and>
         fit_and_score lib df_train df_val = Inr (p, r) \<and>
         writable w out_path \<and> \<not> dump_ok w out_path \<and> e = OSError out_path \<and>
         files (snd (train lib w train_date val_date out_path)) = (files w)(out_path \<mapsto> Truncated))"
    by (rule train_Inl_files)
qed

theorem C4_failure_writes_nothing_witness:
  "fst (train lib0 world0 date_mar date_jan ''model.bin'') =
     Inl (ReadError ''https://d37ci6vzurychx.cloudfront.net/trip-data/green_tripdata_2022-03.parquet'') \<and>
   files (snd (train lib0 world0 date_mar date_jan ''model.bin'')) ''model.bin'' = None \<and>
   fst (train lib0 world0 date_jan date_mar ''model.bin'') =
     Inl (ReadError ''https://d37ci6vzurychx.cloudfront.net/trip-data/green_tripdata_2022-03.parquet'') \<and>
   files (snd (train lib0 world0 date_jan date_mar ''model.bin'')) ''model.bin'' = None \<and>
   fst (train lib0 world0 date_jan date_feb ''/full/model.bin'') = Inl (OSError ''/full/model.bin'') \<and>
   files (snd (train lib0 world0 date_jan date_feb ''/full/model.bin'')) =
     (files world0)(''/full/model.bin'' \<mapsto> Truncated)"
proof -
  have a: "fst (read_dataframe lib0 world0 (base_url_format (year date_mar) (month date_mar))) =
     Inl (ReadError ''https://d37ci6vzurychx.cloudfront.net/trip-data/green_tripdata_2022-03.parquet'')"
    by code_simp
  have b: "files world0 ''model.bin'' = None"
    by (simp add: world0_def)
  have "read_dataframe_try lib0
          (snd (read_dataframe lib0 world0 (base_url_format (year date_jan) (month date_jan))))
          (base_url_format (year date_mar) (month date_mar)) =
        read_dataframe_try lib0 world0 (base_url_format (year date_mar) (month date_mar))"
    by (rule try_cong) (simp add: read_dataframe_world)
  then have c: "fst (read_dataframe lib0
          (snd (read_dataframe lib0 world0 (base_url_format (year date_jan) (month date_jan))))
          (base_url_format (year date_mar) (month date_mar))) =
     Inl (ReadError ''https://d37ci6vzurychx.cloudfront.net/trip-data/green_tripdata_2022-03.parquet'')"
    using a by (simp add: read_dataframe_fst)
  have first: "fst (train lib0 world0 date_mar date_jan ''model.bin'') =
     Inl (ReadError ''https://d37ci6vzurychx.cloudfront.net/trip-data/green_tripdata_2022-03.parquet'') \<and>
     files (snd (train lib0 world0 date_mar date_jan ''model.bin'')) ''model.bin'' = None"
    using C4_failure_writes_nothing[of lib0 world0 date_mar
        "ReadError ''https://d37ci6vzurychx.cloudfront.net/trip-data/green_tripdata_2022-03.parquet''"
        date_jan "''model.bin''"] a b
    by simp
  have second: "fst (train lib0 world0 date_jan date_mar ''model.bin'') =
     Inl (ReadError ''https://d37ci6vzurychx.cloudfront.net/trip-data/green_tripdata_2022-03.parquet'') \<and>
     files (snd (train lib0 world0 date_jan date_mar ''model.bin'')) ''model.bin'' = None"
    using C4_failure_writes_nothing[of lib0 world0 date_jan
        "ReadError ''https://d37ci6vzurychx.cloudfront.net/trip-data/green_tripdata_2022-03.parquet''"
        date_mar "''model.bin''" frame1] eval_load_jan c b
    by simp
  have "files world0 ''/full/model.bin'' = None"
    by (simp add: world0_def)
  then have changed: "files (snd (train lib0 world0 date_jan date_feb ''/full/model.bin'')) \<noteq> files world0"
    using eval_train_full(2) by auto
  have third: "files (snd (train lib0 world0 date_jan date_feb ''/full/model.bin'')) =
     (files world0)(''/full/model.bin'' \<mapsto> Truncated)"
    using C4_failure_writes_nothing[of lib0 world0 date_jan "OSError ''/full/model.bin''"
        date_feb "''/full/model.bin''"] eval_train_full(1) changed
    by blast
  from first second eval_train_full(1) third show ?thesis by (intro conjI) simp_all
qed

text \<open>
  C3. When \<open>train\<close> succeeds, the value it returns is the root-mean-squared-error between
  the predictions of the fitted pipeline, the one it has written to the output path, on the
  validation feature dictionaries and the durations of the validation table: the square
  root of the mean squared difference, so a non-negative number whose square is the mean
  squared error.
\<close>

theorem C3_returns_rmse:
  assumes "train lib w train_date val_date out_path = (Inr r, w')"
  shows "\<exists>df_val x_val y_col y_val p y_pred.
     fst (read_dataframe lib
           (snd (read_dataframe lib w (base_url_format (year train_date) (month train_date))))
           (base_url_format (year val_date) (month val_date))) = Inr df_val \<and>
     getitem_cols df_val [''PULocationID'', ''DOLocationID'', ''trip_distance''] = Inr x_val \<and>
     getitem_col df_val ''duration'' = Inr y_col \<and>
     numeric_values y_col = Inr (map Some y_val) \<and>
     files w' out_path = Some (Pickled p) \<and>
     pipeline_predict p (to_dict_records x_val) = Inr y_pred \<and>
     length y_pred = length y_val \<and> y_val \<noteq> [] \<and>
     r = root_mean_squared_error y_val y_pred \<and>
     0 \<le> r \<and>
     r\<^sup>2 = of_rat ((\<Sum>i<length y_val. (y_pred ! i - y_val ! i)\<^sup>2) / of_nat (length y_val))"
proof -
  from train_Inr[OF assms] obtain df_train df_val p where
    val: "fst (read_dataframe lib
           (snd (read_dataframe lib w (base_url_format (year train_date) (month train_date))))
           (base_url_format (year val_date) (month val_date))) = Inr df_val"
    and fs: "fit_and_score lib df_train df_val = Inr (p, r)"
    and written: "files w' out_path = Some (Pickled p)"
    by blast
  from fit_and_score_Inr[OF fs] obtain x_val y_col y_pred where
    x: "getitem_cols df_val [''PULocationID'', ''DOLocationID'', ''trip_distance''] = Inr x_val"
    and y: "getitem_col df_val ''duration'' = Inr y_col"
    and pred: "pipeline_predict p (to_dict_records x_val) = Inr y_pred"
    and mse: "mean_squared_error y_col y_pred = Inr r"
    by blast
  from mean_squared_error_Inr[OF mse] obtain y_val where
    yv: "numeric_values y_col = Inr (map Some y_val)" "length y_val = length y_pred" "y_val \<noteq> []"
    and r: "r = rmse y_val y_pred"
    by blast
  have r': "r = root_mean_squared_error y_val y_pred"
    using r rmse_is_root_mean_squared_error[OF yv(2)] by simp
  have nonneg: "0 \<le> r"
    unfolding r' root_mean_squared_error_def
    by (intro real_sqrt_ge_zero, simp only: zero_le_of_rat_iff)
       (intro divide_nonneg_nonneg sum_nonneg, auto)
  have sq: "r\<^sup>2 = of_rat ((\<Sum>i<length y_val. (y_pred ! i - y_val ! i)\<^sup>2) / of_nat (length y_val))"
    unfolding r' by (rule root_mean_squared_error_square)
  show ?thesis
    apply (rule exI[of _ df_val])
    apply (rule exI[of _ x_val])
    apply (rule exI[of _ y_col])
    apply (rule exI[of _ y_val])
    apply (rule exI[of _ p])
    apply (rule exI[of _ y_pred])
    using val x y yv written pred r' nonneg sq
    apply (intro conjI)
    apply simp_all
    done
qed

theorem C3_returns_rmse_witness:
  "fst (train lib0 world0 date_jan date_feb ''model.bin'') =
     Inr (root_mean_squared_error [2, 5] [23 / 4, 23 / 4]) \<and>
   files (snd (train lib0 world0 date_jan date_feb ''model.bin'')) ''model.bin'' =
     Some (Pickled pipeline0)"
proof -
  from C3_returns_rmse[OF eval_train0] obtain df_val x_val y_col y_val p y_pred where
    val: "fst (read_dataframe lib0
           (snd (read_dataframe lib0 world0 (base_url_format (year date_jan) (month date_jan))))
           (base_url_format (year date_feb) (month date_feb))) = Inr df_val"
    and x: "getitem_cols df_val [''PULocationID'', ''DOLocationID'', ''trip_distance''] = Inr x_val"
    and y: "getitem_col df_val ''duration'' = Inr y_col"
    and yv: "numeric_values y_col = Inr (map Some y_val)"
    and written: "files (snd (train lib0 world0 date_jan date_feb ''model.bin'')) ''model.bin'' = Some (Pickled p)"
    and pred: "pipeline_predict p (to_dict_records x_val) = Inr y_pred"
    and r: "rmse [2, 5] [23 / 4, 23 / 4] = root_mean_squared_error y_val y_pred"
    by blast
  have df: "df_val = frame_feb1" using val eval_load_feb by simp
  have p: "p = pipeline0" using written eval_train0_result(2) by simp
  have "y_col = FloatCol [Some 2, Some 5]" using y eval_target_feb df by simp
  with yv have "map Some y_val = [Some 2, Some 5]" by simp
  then have y_val: "y_val = [2, 5]" by auto
  have y_pred: "y_pred = [23 / 4, 23 / 4]"
    using eval_predict0 x pred by (simp add: df p features0_def and_then_def)
  show ?thesis
    using r eval_train0_result by (simp add: y_val y_pred)
qed

text \<open>
  C2. When \<open>train\<close> succeeds, the vectorizer of the written pipeline was fitted on the
  training feature dictionaries alone: its feature names are the sorted distinct names of
  the (field, value) pairs of the training dictionaries, one dimension each, and nothing of
  the validation table enters them. The validation dictionaries are transformed with these
  names as they stand: the matrix from which the returned error is computed has one row per
  validation dictionary and one column per fitted name, and the entry of a row under a name
  is the sum of the values of the row's items of that name (1 for a string value, the
  number itself for a number, 0 when the row has no such item). An item whose name was not
  seen in training adds nothing to any dimension.
\<close>

theorem C2_vectorizer_fitted_on_training:
  assumes "train lib w train_date val_date out_path = (Inr r, w')"
  shows "\<exists>df_train df_val x_train x_val p Xf y_col y_val.
     fst (read_dataframe lib w (base_url_format (year train_date) (month train_date))) = Inr df_train \<and>
     fst (read_dataframe lib
           (snd (read_dataframe lib w (base_url_format (year train_date) (month train_date))))
           (base_url_format (year val_date) (month val_date))) = Inr df_val \<and>
     getitem_cols df_train [''PULocationID'', ''DOLocationID'', ''trip_distance''] = Inr x_train \<and>
     getitem_cols df_val [''PULocationID'', ''DOLocationID'', ''trip_distance''] = Inr x_val \<and>
     files w' out_path = Some (Pickled p) \<and>
     feature_names p =
       sort (remdups (List.map_filter feature_name (concat (to_dict_records x_train)))) \<and>
     set (feature_names p) =
       {n. \<exists>d\<in>set (to_dict_records x_train). \<exists>item\<in>set d. feature_name item = Some n} \<and>
     sorted (feature_names p) \<and> distinct (feature_names p) \<and>
     dv_transform (feature_names p) (to_dict_records x_val) = Inr (map (map Some) Xf) \<and>
     length Xf = length (to_dict_records x_val) \<and>
     (\<forall>i<length Xf.
        length (Xf ! i) = length (feature_names p) \<and>
        (\<forall>j<length (feature_names p).
           Some (Xf ! i ! j) =
             nan_sum (map (feature_value \<circ> snd)
               (filter (\<lambda>item. feature_name item = Some (feature_names p ! j))
                  (to_dict_records x_val ! i))))) \<and>
     getitem_col df_val ''duration'' = Inr y_col \<and>
     numeric_values y_col = Inr (map Some y_val) \<and>
     r = root_mean_squared_error y_val
           (map (\<lambda>x. dot (coef (regressor p)) x + intercept (regressor p)) Xf) \<and>
     (\<forall>d j. j < length (feature_names p) \<longrightarrow>
        dv_row (feature_names p) d ! j =
          nan_sum (map (feature_value \<circ> snd)
            (filter (\<lambda>item. feature_name item = Some (feature_names p ! j)) d))) \<and>
     (\<forall>d j item. j < length (feature_names p) \<and>
        filter (\<lambda>item. feature_name item = Some (feature_names p ! j)) d = [item] \<longrightarrow>
        dv_row (feature_names p) d ! j = feature_value (snd item)) \<and>
     (\<forall>d j. j < length (feature_names p) \<and>
        filter (\<lambda>item. feature_name item = Some (feature_names p ! j)) d = [] \<longrightarrow>
        dv_row (feature_names p) d ! j = Some 0) \<and>
     (\<forall>item d. feature_name item \<notin> Some ` set (feature_names p) \<longrightarrow>
        dv_row (feature_names p) (item # d) = dv_row (feature_names p) d \<and>
        dv_row (feature_names p) [item] = replicate (length (feature_names p)) (Some 0))"
proof -
  from train_Inr[OF assms] obtain df_train df_val p where
    tr: "fst (read_dataframe lib w (base_url_format (year train_date) (month train_date))) = Inr df_train"
    and val: "fst (read_dataframe lib
           (snd (read_dataframe lib w (base_url_format (year train_date) (month train_date))))
           (base_url_format (year val_date) (month val_date))) = Inr df_val"
    and fs: "fit_and_score lib df_train df_val = Inr (p, r)"
    and written: "files w' out_path = Some (Pickled p)"
    by blast
  from fit_and_score_Inr[OF fs] obtain x_train x_val y_train y_col y_pred where
    xt: "getitem_cols df_train [''PULocationID'', ''DOLocationID'', ''trip_distance''] = Inr x_train"
    and xv: "getitem_cols df_val [''PULocationID'', ''DOLocationID'', ''trip_distance''] = Inr x_val"
    and y: "getitem_col df_val ''duration'' = Inr y_col"
    and fit: "pipeline_fit lib (to_dict_records x_train) y_train = Inr p"
    and pred: "pipeline_predict p (to_dict_records x_val) = Inr y_pred"
    and mse: "mean_squared_error y_col y_pred = Inr r"
    by blast
  define names where "names = feature_names p"
  define dicts where "dicts = to_dict_records x_val"
  note fitted = pipeline_fit_Inr[OF fit]
  have names_set: "set (feature_names p) =
       {n. \<exists>d\<in>set (to_dict_records x_train). \<exists>item\<in>set d. feature_name item = Some n}"
    unfolding fitted by (rule set_fitted_names)
  have ordered: "sorted (feature_names p)" "distinct (feature_names p)"
    unfolding fitted by simp_all
  from pipeline_predict_Inr[OF pred] have
    tf: "dv_transform names dicts = Inr (map (dv_row names) dicts)"
    and lp: "lr_predict (regressor p) (map (dv_row names) dicts) = Inr y_pred"
    by (simp_all add: names_def dicts_def)
  from lr_predict_Inr[OF lp] obtain Xf where
    X: "map (dv_row names) dicts = map (map Some) Xf"
    and yp: "y_pred = map (\<lambda>x. dot (coef (regressor p)) x + intercept (regressor p)) Xf"
    by blast
  have len: "length Xf = length dicts"
    using arg_cong[OF X, of length] by simp
  have row: "map Some (Xf ! i) = dv_row names (dicts ! i)" if "i < length Xf" for i
    using arg_cong[OF X, of "\<lambda>xs. xs ! i"] that len by simp
  have entries: "\<forall>i<length Xf.
        length (Xf ! i) = length names \<and>
        (\<forall>j<length names.
           Some (Xf ! i ! j) =
             nan_sum (map (feature_value \<circ> snd)
               (filter (\<lambda>item. feature_name item = Some (names ! j)) (dicts ! i))))"
  proof (intro allI impI conjI)
    fix i assume i: "i < length Xf"
    show l: "length (Xf ! i) = length names"
      using arg_cong[OF row[OF i], of length] by (simp add: length_dv_row)
    fix j assume j: "j < length names"
    have "Some (Xf ! i ! j) = map Some (Xf ! i) ! j"
      using j l by simp
    also have "\<dots> = dv_row names (dicts ! i) ! j"
      by (simp only: row[OF i])
    finally show "Some (Xf ! i ! j) =
             nan_sum (map (feature_value \<circ> snd)
               (filter (\<lambda>item. feature_name item = Some (names ! j)) (dicts ! i)))"
      by (simp only: dv_row_nth[OF j])
  qed
  from mean_squared_error_Inr[OF mse] obtain y_val where
    yv: "numeric_values y_col = Inr (map Some y_val)" "length y_val = length y_pred"
    and r: "r = rmse y_val y_pred"
    by blast
  have r': "r = root_mean_squared_error y_val
           (map (\<lambda>x. dot (coef (regressor p)) x + intercept (regressor p)) Xf)"
    using r rmse_is_root_mean_squared_error[OF yv(2)] by (simp add: yp)
  have general: "\<forall>d j. j < length names \<longrightarrow>
        dv_row names d ! j =
          nan_sum (map (feature_value \<circ> snd)
            (filter (\<lambda>item. feature_name item = Some (names ! j)) d))"
    by (simp add: dv_row_nth)
  have one: "\<forall>d j item. j < length names \<and>
        filter (\<lambda>item. feature_name item = Some (names ! j)) d = [item] \<longrightarrow>
        dv_row names d ! j = feature_value (snd item)"
    by (simp add: dv_row_nth nan_sum_single del: nan_sum.simps)
  have none: "\<forall>d j. j < length names \<and>
        filter (\<lambda>item. feature_name item = Some (names ! j)) d = [] \<longrightarrow>
        dv_row names d ! j = Some 0"
    by (simp add: dv_row_nth)
  have unseen: "\<forall>item d. feature_name item \<notin> Some ` set names \<longrightarrow>
        dv_row names (item # d) = dv_row names d \<and>
        dv_row names [item] = replicate (length names) (Some 0)"
    using dv_row_unseen by blast
  have tf': "dv_transform names dicts = Inr (map (map Some) Xf)"
    using tf X by simp
  show ?thesis
    apply (rule exI[of _ df_train])
    apply (rule exI[of _ df_val])
    apply (rule exI[of _ x_train])
    apply (rule exI[of _ x_val])
    apply (rule exI[of _ p])
    apply (rule exI[of _ Xf])
    apply (rule exI[of _ y_col])
    apply (rule exI[of _ y_val])
    using tr val xt xv written fitted names_set ordered tf' len entries y yv(1) r'
      general one none unseen
    unfolding names_def dicts_def
    apply (intro conjI)
    apply assumption+
    done
qed

theorem C2_vectorizer_fitted_on_training_witness:
  "files (snd (train lib0 world0 date_jan date_feb ''model.bin'')) ''model.bin'' =
     Some (Pickled pipeline0) \<and>
   feature_names pipeline0 =
     [''DOLocationID=42'', ''PULocationID=41'', ''PULocationID=74'', ''trip_distance''] \<and>
   dv_row (feature_names pipeline0)
     [(''PULocationID'', PyStr ''74''), (''DOLocationID'', PyStr ''42''),
      (''trip_distance'', PyNum (Some 1))] ! 2 = Some 1 \<and>
   dv_row (feature_names pipeline0)
     [(''PULocationID'', PyStr ''99''), (''DOLocationID'', PyStr ''7''),
      (''trip_distance'', PyNum (Some 2))] ! 3 = Some 2 \<and>
   dv_row (feature_names pipeline0) [(''PULocationID'', PyStr ''99'')] =
     [Some 0, Some 0, Some 0, Some 0]"
proof -
  from C2_vectorizer_fitted_on_training[OF eval_train0] obtain p where
    written: "files (snd (train lib0 world0 date_jan date_feb ''model.bin'')) ''model.bin'' =
      Some (Pickled p)"
    and one: "\<forall>d j item. j < length (feature_names p) \<and>
        filter (\<lambda>item. feature_name item = Some (feature_names p ! j)) d = [item] \<longrightarrow>
        dv_row (feature_names p) d ! j = feature_value (snd item)"
    and unseen: "\<forall>item d. feature_name item \<notin> Some ` set (feature_names p) \<longrightarrow>
        dv_row (feature_names p) (item # d) = dv_row (feature_names p) d \<and>
        dv_row (feature_names p) [item] = replicate (length (feature_names p)) (Some 0)"
    by blast
  have p: "p = pipeline0" using written eval_train0_result(2) by simp
  have names: "feature_names pipeline0 =
     [''DOLocationID=42'', ''PULocationID=41'', ''PULocationID=74'', ''trip_distance'']"
    by (simp add: pipeline0_def)
  have j2: "2 < length (feature_names pipeline0)" and j3: "3 < length (feature_names pipeline0)"
    by (simp_all add: names)
  have f2: "filter (\<lambda>item. feature_name item = Some (feature_names pipeline0 ! 2))
      [(''PULocationID'', PyStr ''74''), (''DOLocationID'', PyStr ''42''),
       (''trip_distance'', PyNum (Some 1))] = [(''PULocationID'', PyStr ''74'')]"
    by code_simp
  have f3: "filter (\<lambda>item. feature_name item = Some (feature_names pipeline0 ! 3))
      [(''PULocationID'', PyStr ''99''), (''DOLocationID'', PyStr ''7''),
       (''trip_distance'', PyNum (Some 2))] = [(''trip_distance'', PyNum (Some 2))]"
    by code_simp
  from one j2 f2 have a: "dv_row (feature_names pipeline0)
     [(''PULocationID'', PyStr ''74''), (''DOLocationID'', PyStr ''42''),
      (''trip_distance'', PyNum (Some 1))] ! 2 = Some 1"
    unfolding p by fastforce
  from one j3 f3 have b: "dv_row (feature_names pipeline0)
     [(''PULocationID'', PyStr ''99''), (''DOLocationID'', PyStr ''7''),
      (''trip_distance'', PyNum (Some 2))] ! 3 = Some 2"
    unfolding p by fastforce
  have new: "feature_name (''PULocationID'', PyStr ''99'') \<notin> Some ` set (feature_names pipeline0)"
    by (simp add: names)
  from unseen new have "dv_row (feature_names pipeline0) [(''PULocationID'', PyStr ''99'')] =
      replicate (length (feature_names pipeline0)) (Some 0)"
    unfolding p by blast
  then have c: "dv_row (feature_names pipeline0) [(''PULocationID'', PyStr ''99'')] =
      [Some 0, Some 0, Some 0, Some 0]"
    by (simp add: names numeral_eq_Suc)
  from written p names a b c show ?thesis by simp
qed

end
